theory Spec2Isabelle
  imports Complex_Main "HOL-Library.Log_Nat"
begin

section \<open>Python floats\<close>

text \<open>
  Every amount of \<^verbatim>\<open>MiniBancoFinal.py\<close> is a Python \<^verbatim>\<open>float\<close>: the application
  obtains it with \<^verbatim>\<open>float(...)\<close> from an entry field or from the \<^verbatim>\<open>REAL\<close> column of
  the database. A Python float is an IEEE 754 binary64 value: a finite number (kept here
  as the rational it denotes), one of the two infinities, or NaN. The sign of zero is not
  kept: it is invisible to \<^verbatim>\<open>+\<close>, \<^verbatim>\<open>-\<close>, \<^verbatim>\<open>*\<close> and to the comparisons, which are
  the only float operations of the ledger.
\<close>

datatype pyfloat = Fin rat | PosInf | NegInf | NaN

definition pow2 :: "int \<Rightarrow> rat" where
  "pow2 e = (if 0 \<le> e then 2 ^ nat e else 1 / 2 ^ nat (- e))"

text \<open>Rounding a rational to the nearest integer, ties to the even one.\<close>

definition round_half_even :: "rat \<Rightarrow> int" where
  "round_half_even q =
     (let f = \<lfloor>q\<rfloor>; r = q - of_int f
      in if r < 1 / 2 then f
         else if 1 / 2 < r then f + 1
         else if even f then f else f + 1)"

text \<open>The binary exponent of a positive rational: \<open>pow2 (ilog2 x) \<le> x < pow2 (ilog2 x + 1)\<close>.\<close>

definition ilog2 :: "rat \<Rightarrow> int" where
  "ilog2 x = (if 1 \<le> x then bitlen \<lfloor>x\<rfloor> - 1 else - bitlen (\<lceil>1 / x\<rceil> - 1))"

text \<open>
  The exponent of the unit in the last place of the binary64 format at \<open>x\<close>: 53
  significant bits, and no exponent below that of the subnormal numbers.
\<close>

definition ulp_exp :: "rat \<Rightarrow> int" where
  "ulp_exp x = max (ilog2 x - 52) (- 1074)"

definition round_pos :: "rat \<Rightarrow> rat" where
  "round_pos x = of_int (round_half_even (x / pow2 (ulp_exp x))) * pow2 (ulp_exp x)"

text \<open>
  Round to nearest, ties to even, overflowing to an infinity: the result of every float
  operation of CPython on finite operands (\<^verbatim>\<open>+\<close>, \<^verbatim>\<open>-\<close> and \<^verbatim>\<open>*\<close> on floats do not
  raise OverflowError).
\<close>

definition rnd :: "rat \<Rightarrow> pyfloat" where
  "rnd x =
     (if x = 0 then Fin 0
      else if 0 < x then (let y = round_pos x in if 2 ^ 1024 \<le> y then PosInf else Fin y)
      else (let y = round_pos (- x) in if 2 ^ 1024 \<le> y then NegInf else Fin (- y)))"

text \<open>The finite floats that are binary64 values are the fixed points of the rounding.\<close>

definition is_double :: "rat \<Rightarrow> bool" where
  "is_double q \<longleftrightarrow> rnd q = Fin q"

fun is_finite :: "pyfloat \<Rightarrow> bool" where
  "is_finite (Fin q) = True"
| "is_finite _ = False"

instantiation pyfloat :: "{zero, plus, minus, times, inverse, ord}"
begin

definition zero_pyfloat :: pyfloat where
  "zero_pyfloat = Fin 0"

fun plus_pyfloat :: "pyfloat \<Rightarrow> pyfloat \<Rightarrow> pyfloat" where
  "plus_pyfloat NaN y = NaN"
| "plus_pyfloat x NaN = NaN"
| "plus_pyfloat PosInf NegInf = NaN"
| "plus_pyfloat NegInf PosInf = NaN"
| "plus_pyfloat PosInf y = PosInf"
| "plus_pyfloat x PosInf = PosInf"
| "plus_pyfloat NegInf y = NegInf"
| "plus_pyfloat x NegInf = NegInf"
| "plus_pyfloat (Fin a) (Fin b) = rnd (a + b)"

fun minus_pyfloat :: "pyfloat \<Rightarrow> pyfloat \<Rightarrow> pyfloat" where
  "minus_pyfloat NaN y = NaN"
| "minus_pyfloat x NaN = NaN"
| "minus_pyfloat PosInf PosInf = NaN"
| "minus_pyfloat NegInf NegInf = NaN"
| "minus_pyfloat PosInf y = PosInf"
| "minus_pyfloat x PosInf = NegInf"
| "minus_pyfloat NegInf y = NegInf"
| "minus_pyfloat x NegInf = PosInf"
| "minus_pyfloat (Fin a) (Fin b) = rnd (a - b)"

fun times_pyfloat :: "pyfloat \<Rightarrow> pyfloat \<Rightarrow> pyfloat" where
  "times_pyfloat NaN y = NaN"
| "times_pyfloat x NaN = NaN"
| "times_pyfloat (Fin a) (Fin b) = rnd (a * b)"
| "times_pyfloat (Fin a) PosInf = (if a = 0 then NaN else if 0 < a then PosInf else NegInf)"
| "times_pyfloat (Fin a) NegInf = (if a = 0 then NaN else if 0 < a then NegInf else PosInf)"
| "times_pyfloat PosInf (Fin b) = (if b = 0 then NaN else if 0 < b then PosInf else NegInf)"
| "times_pyfloat NegInf (Fin b) = (if b = 0 then NaN else if 0 < b then NegInf else PosInf)"
| "times_pyfloat PosInf PosInf = PosInf"
| "times_pyfloat NegInf NegInf = PosInf"
| "times_pyfloat PosInf NegInf = NegInf"
| "times_pyfloat NegInf PosInf = NegInf"

text \<open>
  Division is used once, by a nonzero constant (\<^verbatim>\<open>tasa_anual / 12\<close>); Python raises
  ZeroDivisionError on a zero divisor, which is NaN here and never reached.
\<close>

fun divide_pyfloat :: "pyfloat \<Rightarrow> pyfloat \<Rightarrow> pyfloat" where
  "divide_pyfloat NaN y = NaN"
| "divide_pyfloat x NaN = NaN"
| "divide_pyfloat (Fin a) (Fin b) = (if b = 0 then NaN else rnd (a / b))"
| "divide_pyfloat (Fin a) PosInf = Fin 0"
| "divide_pyfloat (Fin a) NegInf = Fin 0"
| "divide_pyfloat PosInf (Fin b) = (if b < 0 then NegInf else PosInf)"
| "divide_pyfloat NegInf (Fin b) = (if b < 0 then PosInf else NegInf)"
| "divide_pyfloat PosInf PosInf = NaN"
| "divide_pyfloat PosInf NegInf = NaN"
| "divide_pyfloat NegInf PosInf = NaN"
| "divide_pyfloat NegInf NegInf = NaN"

definition inverse_pyfloat :: "pyfloat \<Rightarrow> pyfloat" where
  "inverse_pyfloat (x :: pyfloat) = divide (Fin 1) x"

text \<open>The comparisons of floats: every comparison with NaN is false.\<close>

fun less_eq_pyfloat :: "pyfloat \<Rightarrow> pyfloat \<Rightarrow> bool" where
  "less_eq_pyfloat NaN y = False"
| "less_eq_pyfloat x NaN = False"
| "less_eq_pyfloat NegInf y = True"
| "less_eq_pyfloat x PosInf = True"
| "less_eq_pyfloat PosInf y = False"
| "less_eq_pyfloat x NegInf = False"
| "less_eq_pyfloat (Fin a) (Fin b) = (a \<le> b)"

fun less_pyfloat :: "pyfloat \<Rightarrow> pyfloat \<Rightarrow> bool" where
  "less_pyfloat NaN y = False"
| "less_pyfloat x NaN = False"
| "less_pyfloat PosInf y = False"
| "less_pyfloat x NegInf = False"
| "less_pyfloat NegInf y = True"
| "less_pyfloat x PosInf = True"
| "less_pyfloat (Fin a) (Fin b) = (a < b)"

instance ..

end

text \<open>A float literal of the source denotes the double nearest to its decimal value.\<close>

definition literal :: "rat \<Rightarrow> pyfloat" where
  "literal q = rnd q"

subsection \<open>The format specification \<^verbatim>\<open>:.2f\<close>\<close>

text \<open>The decimal digit \<open>d\<close>; every call has \<open>d < 10\<close>.\<close>

definition digit_char :: "nat \<Rightarrow> char" where
  "digit_char d = ''0123456789'' ! d"

fun str_nat :: "nat \<Rightarrow> string" where
  "str_nat n = (if n < 10 then [digit_char n] else str_nat (n div 10) @ [digit_char (n mod 10)])"

text \<open>
  Two decimals of the exact binary value, rounded half to even, as CPython's correctly
  rounded conversion does. A negative zero, which this model does not keep, would print
  \<^verbatim>\<open>-0.00\<close>.
\<close>

definition fmt_2f :: "pyfloat \<Rightarrow> string" where
  "fmt_2f x =
     (case x of
        NaN \<Rightarrow> ''nan''
      | PosInf \<Rightarrow> ''inf''
      | NegInf \<Rightarrow> ''-inf''
      | Fin q \<Rightarrow>
          (let n = nat (round_half_even (\<bar>q\<bar> * 100))
           in (if q < 0 then ''-'' else '''') @ str_nat (n div 100) @ ''.''
              @ [digit_char (n div 10 mod 10), digit_char (n mod 10)]))"

section \<open>The account ledger (class \<^verbatim>\<open>Cuenta\<close> and its subclasses)\<close>

text \<open>
  Strings are Python strings over the code points below 256, one \<^typ>\<open>char\<close> per code
  point (so \<open>CHR 0xF3\<close> is the letter o with an acute accent).

  An account is a mutable object. Objects live in a store indexed by their identity, and a
  method takes the identity of \<^verbatim>\<open>self\<close> and the store and returns the exception it
  raised, if any, with the store as the call left it. The class of the object is kept as
  a field: \<^verbatim>\<open>aplicar_interes\<close> is dispatched on it.
\<close>

datatype clase_cuenta = Cuenta | CuentaAhorro | CuentaCorriente

type_synonym transaccion = "string \<times> string \<times> string"

record cuenta =
  clase :: clase_cuenta
  numero :: string
  titular :: string
  saldo :: pyfloat
  historial :: "transaccion list"

type_synonym ref = nat
type_synonym heap = "ref \<Rightarrow> cuenta"

datatype error = ValueError string | UnboundLocalError string | DatabaseError string

definition init_cuenta :: "clase_cuenta \<Rightarrow> string \<Rightarrow> string \<Rightarrow> pyfloat \<Rightarrow> cuenta" where
  "init_cuenta k num tit saldo_inicial =
     \<lparr>clase = k, numero = num, titular = tit, saldo = saldo_inicial, historial = []\<rparr>"

text \<open>
  \<^verbatim>\<open>_registrar_transaccion\<close> reads the clock; the reading \<open>fecha\<close>, already formatted,
  is an argument of the model, and so of every method that records a transaction.
\<close>

definition registrar_transaccion :: "string \<Rightarrow> ref \<Rightarrow> string \<Rightarrow> string \<Rightarrow> heap \<Rightarrow> heap" where
  "registrar_transaccion fecha self tipo monto_str h =
     h(self := (h self)\<lparr>historial := historial (h self) @ [(fecha, tipo, monto_str)]\<rparr>)"

definition msg_depositar :: string where
  "msg_depositar = ''El monto a depositar debe ser un valor positivo. '' @ [CHR 0xA1]
     @ ''Int'' @ [CHR 0xE9] @ ''ntalo de nuevo!''"

definition msg_retirar :: string where
  "msg_retirar = ''El monto a retirar debe ser un valor positivo. '' @ [CHR 0xA1]
     @ ''Verifica el valor ingresado!''"

definition msg_saldo_insuficiente :: "pyfloat \<Rightarrow> pyfloat \<Rightarrow> string" where
  "msg_saldo_insuficiente saldo_actual monto =
     [CHR 0xA1] @ ''Saldo insuficiente! Tu saldo actual es S/. '' @ fmt_2f saldo_actual
     @ ''. No puedes retirar S/. '' @ fmt_2f monto @ ''.''"

definition depositar :: "string \<Rightarrow> ref \<Rightarrow> pyfloat \<Rightarrow> heap \<Rightarrow> error option \<times> heap" where
  "depositar fecha self monto h =
     (if monto \<le> 0 then (Some (ValueError msg_depositar), h)
      else
        let h1 = h(self := (h self)\<lparr>saldo := saldo (h self) + monto\<rparr>)
        in (None, registrar_transaccion fecha self (''Dep'' @ [CHR 0xF3] @ ''sito'')
                    (''+S/. '' @ fmt_2f monto) h1))"

definition retirar :: "string \<Rightarrow> ref \<Rightarrow> pyfloat \<Rightarrow> heap \<Rightarrow> error option \<times> heap" where
  "retirar fecha self monto h =
     (if monto \<le> 0 then (Some (ValueError msg_retirar), h)
      else if monto > saldo (h self)
      then (Some (ValueError (msg_saldo_insuficiente (saldo (h self)) monto)), h)
      else
        let h1 = h(self := (h self)\<lparr>saldo := saldo (h self) - monto\<rparr>)
        in (None, registrar_transaccion fecha self ''Retiro'' (''-S/. '' @ fmt_2f monto) h1))"

text \<open>
  \<^verbatim>\<open>transferir\<close> records four transactions, so it reads the clock four times: \<open>f1\<close> in
  \<^verbatim>\<open>retirar\<close>, \<open>f2\<close> in \<^verbatim>\<open>depositar\<close>, \<open>f3\<close> and \<open>f4\<close> for its own two records. An
  exception of a call propagates with the store as it is at that moment.
\<close>

definition transferir ::
  "string \<times> string \<times> string \<times> string \<Rightarrow> ref \<Rightarrow> ref \<Rightarrow> pyfloat \<Rightarrow> heap \<Rightarrow> error option \<times> heap" where
  "transferir fechas self destino monto h =
     (case fechas of (f1, f2, f3, f4) \<Rightarrow>
        (case retirar f1 self monto h of
           (Some e, h1) \<Rightarrow> (Some e, h1)
         | (None, h1) \<Rightarrow>
             (case depositar f2 destino monto h1 of
                (Some e, h2) \<Rightarrow> (Some e, h2)
              | (None, h2) \<Rightarrow>
                  let h3 = registrar_transaccion f3 self
                             (''Transferencia a '' @ numero (h2 destino))
                             (''-S/. '' @ fmt_2f monto) h2;
                      h4 = registrar_transaccion f4 destino
                             (''Transferencia de '' @ numero (h3 self))
                             (''+S/. '' @ fmt_2f monto) h3
                  in (None, h4))))"

text \<open>
  \<^verbatim>\<open>aplicar_interes\<close>: the method of the base class does nothing (\<^verbatim>\<open>pass\<close>); each
  subclass overrides it with its own annual rate. The divisor \<^verbatim>\<open>12\<close> is an int, which
  Python converts to the float 12.0.
\<close>

definition aplicar_interes :: "string \<Rightarrow> ref \<Rightarrow> heap \<Rightarrow> error option \<times> heap" where
  "aplicar_interes fecha self h =
     (case clase (h self) of
        Cuenta \<Rightarrow> (None, h)
      | CuentaAhorro \<Rightarrow>
          (let tasa_anual = literal (1 / 100);
               tasa_mensual = tasa_anual / Fin 12;
               interes_ganado = saldo (h self) * tasa_mensual;
               h1 = h(self := (h self)\<lparr>saldo := saldo (h self) + interes_ganado\<rparr>)
           in (None, registrar_transaccion fecha self (''Inter'' @ [CHR 0xE9] @ ''s (Ahorro)'')
                       (''+S/. '' @ fmt_2f interes_ganado) h1))
      | CuentaCorriente \<Rightarrow>
          (let tasa_anual = literal (5 / 10000);
               tasa_mensual = tasa_anual / Fin 12;
               interes_ganado = saldo (h self) * tasa_mensual;
               h1 = h(self := (h self)\<lparr>saldo := saldo (h self) + interes_ganado\<rparr>)
           in (None, registrar_transaccion fecha self (''Inter'' @ [CHR 0xE9] @ ''s (Corriente)'')
                       (''+S/. '' @ fmt_2f interes_ganado) h1)))"

subsection \<open>Sequences of calls\<close>

text \<open>
  A client of the class calls the four methods in any order on any accounts; as in
  \<^verbatim>\<open>_realizar_operacion\<close>, an exception of a call is caught and the next call goes on
  from the store the failed call left. Each call carries the clock readings it consumes.
\<close>

datatype operacion =
    Depositar ref pyfloat
  | Retirar ref pyfloat
  | Transferir ref ref pyfloat
  | AplicarInteres ref

fun ejecutar ::
  "string \<times> string \<times> string \<times> string \<Rightarrow> operacion \<Rightarrow> heap \<Rightarrow> error option \<times> heap" where
  "ejecutar fechas (Depositar self monto) h = depositar (fst fechas) self monto h"
| "ejecutar fechas (Retirar self monto) h = retirar (fst fechas) self monto h"
| "ejecutar fechas (Transferir self destino monto) h = transferir fechas self destino monto h"
| "ejecutar fechas (AplicarInteres self) h = aplicar_interes (fst fechas) self h"

fun ejecutar_todas ::
  "((string \<times> string \<times> string \<times> string) \<times> operacion) list \<Rightarrow> heap \<Rightarrow> heap" where
  "ejecutar_todas [] h = h"
| "ejecutar_todas ((fechas, op) # ops) h = ejecutar_todas ops (snd (ejecutar fechas op h))"

fun monto_de :: "operacion \<Rightarrow> pyfloat option" where
  "monto_de (Depositar self monto) = Some monto"
| "monto_de (Retirar self monto) = Some monto"
| "monto_de (Transferir self destino monto) = Some monto"
| "monto_de (AplicarInteres self) = None"

text \<open>
  The balance invariant of the specification, on a store: no account has a negative
  balance (a NaN balance is not \<open>\<ge> 0\<close>). And the amounts of a sequence of calls being
  all finite numbers.
\<close>

definition sin_saldo_negativo :: "heap \<Rightarrow> bool" where
  "sin_saldo_negativo h \<longleftrightarrow> (\<forall>r. 0 \<le> saldo (h r))"

definition monto_finito :: "operacion \<Rightarrow> bool" where
  "monto_finito op = (case monto_de op of None \<Rightarrow> True | Some m \<Rightarrow> is_finite m)"

definition montos_finitos ::
  "((string \<times> string \<times> string \<times> string) \<times> operacion) list \<Rightarrow> bool" where
  "montos_finitos ops = list_all (\<lambda>p. monto_finito (snd p)) ops"

section \<open>The account registry (class \<^verbatim>\<open>BancaApp\<close> and the global \<^verbatim>\<open>cuentas\<close>)\<close>

text \<open>
  The global dictionary \<^verbatim>\<open>cuentas\<close> maps an account number to an account object. The
  state of the application is that dictionary, the store of the objects, and the next
  unused object identity (a constructor call takes it).
\<close>

record app =
  cuentas :: "string \<rightharpoonup> ref"
  objetos :: heap
  libre :: ref

subsection \<open>String helpers: \<^verbatim>\<open>str.strip\<close> and the two regular expressions\<close>

text \<open>The code points below 256 for which \<^verbatim>\<open>str.isspace\<close> holds.\<close>

definition es_espacio :: "char \<Rightarrow> bool" where
  "es_espacio c \<longleftrightarrow>
     (of_char c :: nat) \<in> set [9, 10, 11, 12, 13, 28, 29, 30, 31, 32, 133, 160]"

definition strip :: "string \<Rightarrow> string" where
  "strip s = rev (dropWhile es_espacio (rev (dropWhile es_espacio s)))"

text \<open>\<^verbatim>\<open>\d\<close>: among the code points below 256 the decimal digits are \<^verbatim>\<open>0\<close> to \<^verbatim>\<open>9\<close>.\<close>

definition es_digito :: "char \<Rightarrow> bool" where
  "es_digito c \<longleftrightarrow> c \<in> set ''0123456789''"

text \<open>\<^verbatim>\<open>$\<close> matches at the end of the string and also just before a final newline.\<close>

definition fin_de_cadena :: "string \<Rightarrow> bool" where
  "fin_de_cadena s \<longleftrightarrow> s = [] \<or> s = [CHR 0x0A]"

text \<open>\<^verbatim>\<open>re.match(r"^\d{10}$", numero)\<close>\<close>

definition re_numero :: "string \<Rightarrow> bool" where
  "re_numero s \<longleftrightarrow>
     10 \<le> length s \<and> list_all es_digito (take 10 s) \<and> fin_de_cadena (drop 10 s)"

text \<open>The character class of the name pattern: the ASCII letters and eleven accented ones.\<close>

definition es_letra :: "char \<Rightarrow> bool" where
  "es_letra c \<longleftrightarrow>
     c \<in> set (''ABCDEFGHIJKLMNOPQRSTUVWXYZabcdefghijklmnopqrstuvwxyz''
              @ [CHR 0xC1, CHR 0xC9, CHR 0xCD, CHR 0xD3, CHR 0xDA, CHR 0xF1,
                 CHR 0xE1, CHR 0xE9, CHR 0xED, CHR 0xF3, CHR 0xFA])"

text \<open>
  The tail \<^verbatim>\<open>( L+)+$\<close> of the name pattern, after \<open>k\<close> groups have been matched. A
  letter run must be taken whole: what follows it has to be a space or the end.
\<close>

function re_apellidos :: "nat \<Rightarrow> string \<Rightarrow> bool" where
  "re_apellidos k s =
     (if 1 \<le> k \<and> fin_de_cadena s then True
      else (case s of
              [] \<Rightarrow> False
            | c # t \<Rightarrow> c = CHR '' '' \<and> takeWhile es_letra t \<noteq> []
                       \<and> re_apellidos (Suc k) (dropWhile es_letra t)))"
  by pat_completeness auto
termination
  by (relation "measure (\<lambda>(k, s). length s)") (simp_all add: length_dropWhile_le less_Suc_eq_le)

text \<open>\<^verbatim>\<open>re.match(r"^L+( L+)+$", titular)\<close> with \<^verbatim>\<open>L\<close> the character class above.\<close>

definition re_titular :: "string \<Rightarrow> bool" where
  "re_titular s \<longleftrightarrow> takeWhile es_letra s \<noteq> [] \<and> re_apellidos 0 (dropWhile es_letra s)"

text \<open>
  The owner-name rule in the words of the specification: the name, cut at its spaces
  (\<^verbatim>\<open>str.split(' ')\<close>), gives at least two words, each of them nonempty and made of
  letters of the character class.
\<close>

fun separar :: "string \<Rightarrow> string list" where
  "separar [] = [[]]"
| "separar (c # s) =
     (if c = CHR '' '' then [] # separar s
      else (case separar s of [] \<Rightarrow> [[c]] | w # ws \<Rightarrow> (c # w) # ws))"

definition nombre_y_apellidos :: "string \<Rightarrow> bool" where
  "nombre_y_apellidos s \<longleftrightarrow>
     2 \<le> length (separar s) \<and> list_all (\<lambda>w. w \<noteq> [] \<and> list_all es_letra w) (separar s)"

subsection \<open>\<^verbatim>\<open>_crear_cuenta\<close>\<close>

datatype dialogo = ShowInfo string string | ShowError string string

fun str_error :: "error \<Rightarrow> string" where
  "str_error (ValueError m) = m"
| "str_error (UnboundLocalError m) = m"
| "str_error (DatabaseError m) = m"

definition msg_falta_numero :: string where
  "msg_falta_numero = ''Por favor, ingresa el (n'' @ [CHR 0xFA] @ ''mero de cuenta).''"

definition msg_falta_titular :: string where
  "msg_falta_titular = ''Por favor, ingresa el (nombre y apellido del titular).''"

definition msg_falta_saldo :: string where
  "msg_falta_saldo = ''Por favor, ingresa el (saldo inicial).''"

definition msg_numero_invalido :: string where
  "msg_numero_invalido = ''El n'' @ [CHR 0xFA] @ ''mero de cuenta debe tener exactamente (10 d''
     @ [CHR 0xED] @ ''gitos num'' @ [CHR 0xE9] @ ''ricos).''"

definition msg_titular_invalido :: string where
  "msg_titular_invalido = ''Por favor, ingresa un (nombre y al menos un apellido v''
     @ [CHR 0xE1] @ ''lidos).''"

definition msg_saldo_negativo :: string where
  "msg_saldo_negativo = ''El saldo inicial no puede ser negativo.''"

definition msg_cuenta_existe :: string where
  "msg_cuenta_existe = [CHR 0xA1] @ ''Ups! Esta cuenta ya existe. Por favor, verifica el n''
     @ [CHR 0xFA] @ ''mero.''"

text \<open>
  The body of the \<^verbatim>\<open>try\<close> block, from the texts of the three entry fields and the
  selected kind. Two collaborators are arguments:
  \<^item> \<open>float_of\<close> is Python's \<^verbatim>\<open>float\<close> on a string: the float, or the message of the
    ValueError it raises;
  \<^item> \<open>db_insert\<close> is \<^verbatim>\<open>add_new_account_to_db\<close>: the message of the database error it
    raises, if any.
\<close>

definition crear_cuenta_try ::
  "(string \<Rightarrow> string + pyfloat) \<Rightarrow> (cuenta \<Rightarrow> string option) \<Rightarrow>
   string \<Rightarrow> string \<Rightarrow> string \<Rightarrow> string \<Rightarrow> app \<Rightarrow> error option \<times> app" where
  "crear_cuenta_try float_of db_insert entry_numero entry_titular entry_saldo tipo a =
     (let numero = strip entry_numero;
          titular = strip entry_titular;
          saldo_str = strip entry_saldo
      in if numero = [] then (Some (ValueError msg_falta_numero), a)
         else if titular = [] then (Some (ValueError msg_falta_titular), a)
         else if saldo_str = [] then (Some (ValueError msg_falta_saldo), a)
         else
           (case float_of saldo_str of
              Inl m \<Rightarrow> (Some (ValueError m), a)
            | Inr saldo_inicial \<Rightarrow>
                if \<not> re_numero numero then (Some (ValueError msg_numero_invalido), a)
                else if \<not> re_titular titular then (Some (ValueError msg_titular_invalido), a)
                else if saldo_inicial < 0 then (Some (ValueError msg_saldo_negativo), a)
                else if cuentas a numero \<noteq> None then (Some (ValueError msg_cuenta_existe), a)
                else
                  let cuenta = libre a;
                      obj = init_cuenta
                              (if tipo = ''Ahorro'' then CuentaAhorro else CuentaCorriente)
                              numero titular saldo_inicial;
                      a1 = a\<lparr>cuentas := (cuentas a)(numero \<mapsto> cuenta),
                             objetos := (objetos a)(cuenta := obj),
                             libre := Suc (libre a)\<rparr>
                  in (case db_insert obj of
                        Some m \<Rightarrow> (Some (DatabaseError m), a1)
                      | None \<Rightarrow> (None, a1))))"

text \<open>The two handlers of \<^verbatim>\<open>_crear_cuenta\<close> turn the outcome into a dialog.\<close>

definition crear_cuenta ::
  "(string \<Rightarrow> string + pyfloat) \<Rightarrow> (cuenta \<Rightarrow> string option) \<Rightarrow>
   string \<Rightarrow> string \<Rightarrow> string \<Rightarrow> string \<Rightarrow> app \<Rightarrow> dialogo \<times> app" where
  "crear_cuenta float_of db_insert entry_numero entry_titular entry_saldo tipo a =
     (case crear_cuenta_try float_of db_insert entry_numero entry_titular entry_saldo tipo a of
        (None, a1) \<Rightarrow>
          (ShowInfo ([CHR 0xA1, CHR 0xC9] @ ''xito!'')
             ([CHR 0xA1] @ ''Felicidades! La cuenta ha sido creada correctamente.''), a1)
      | (Some (ValueError m), a1) \<Rightarrow> (ShowError ''Error al Crear Cuenta'' m, a1)
      | (Some e, a1) \<Rightarrow>
          (ShowError ''Error Inesperado''
             (''Ocurri'' @ [CHR 0xF3] @ '' un error inesperado: '' @ str_error e @ ''.''), a1))"

subsection \<open>\<^verbatim>\<open>load_accounts_from_db\<close>\<close>

text \<open>
  A row of the table \<^verbatim>\<open>cuentas\<close> is \<open>(numero, titular, saldo, tipo)\<close>, here \<open>(num, tit, sal, tipo)\<close>. The loop keeps
  the local variable \<^verbatim>\<open>cuenta\<close> from one row to the next: it is unbound (\<open>None\<close>) until
  a row of a known kind has been read, and a row of an unknown kind leaves it as it is.
  \<open>hist\<close> gives the rows of the table \<^verbatim>\<open>historial\<close> selected for an account number.
\<close>

type_synonym fila = "string \<times> string \<times> pyfloat \<times> string"

fun cargar_filas ::
  "(string \<Rightarrow> transaccion list) \<Rightarrow> fila list \<Rightarrow> ref option \<Rightarrow> app \<Rightarrow> error option \<times> app" where
  "cargar_filas hist [] cuenta a = (None, a)"
| "cargar_filas hist ((num, tit, sal, tipo) # filas) cuenta a =
     (let (cuenta1, a1) =
            (if tipo = ''Ahorro''
             then (Some (libre a),
                   a\<lparr>objetos := (objetos a)(libre a := init_cuenta CuentaAhorro num tit sal),
                     libre := Suc (libre a)\<rparr>)
             else if tipo = ''Corriente''
             then (Some (libre a),
                   a\<lparr>objetos := (objetos a)(libre a := init_cuenta CuentaCorriente num tit sal),
                     libre := Suc (libre a)\<rparr>)
             else (cuenta, a))
      in (case cuenta1 of
            None \<Rightarrow> (Some (UnboundLocalError ''cuenta''), a1)
          | Some r \<Rightarrow>
              let a2 = a1\<lparr>cuentas := (cuentas a1)(num \<mapsto> r)\<rparr>;
                  a3 = a2\<lparr>objetos := (objetos a2)
                          (r := (objetos a2 r)\<lparr>historial := historial (objetos a2 r) @ hist num\<rparr>)\<rparr>
              in cargar_filas hist filas (Some r) a3))"

text \<open>
  The database is absent when the connection failed (\<^verbatim>\<open>if not self.db_conn: return\<close>);
  otherwise it is the rows of \<^verbatim>\<open>cuentas\<close> and the history rows of each number.
\<close>

definition load_accounts_from_db ::
  "(fila list \<times> (string \<Rightarrow> transaccion list)) option \<Rightarrow> app \<Rightarrow> error option \<times> app" where
  "load_accounts_from_db db a =
     (case db of
        None \<Rightarrow> (None, a)
      | Some (filas, hist) \<Rightarrow> cargar_filas hist filas None a)"

definition tipo_conocido :: "fila \<Rightarrow> bool" where
  "tipo_conocido f \<longleftrightarrow> snd (snd (snd f)) = ''Ahorro'' \<or> snd (snd (snd f)) = ''Corriente''"

section \<open>Example data\<close>

text \<open>
  Two accounts of the kind the application creates: a savings account with 100.00 and a
  current account with 0.00, as the objects 0 and 1 of a store, and the clock readings of
  a call.
\<close>

definition cuenta_ana :: cuenta where
  "cuenta_ana = init_cuenta CuentaAhorro ''1000000001'' ''Ana Perez'' (Fin 100)"

definition cuenta_luis :: cuenta where
  "cuenta_luis = init_cuenta CuentaCorriente ''1000000002'' ''Luis Ramos'' (Fin 0)"

definition heap_ejemplo :: heap where
  "heap_ejemplo = (\<lambda>r. if r = 0 then cuenta_ana else cuenta_luis)"

definition fechas_ejemplo :: "string \<times> string \<times> string \<times> string" where
  "fechas_ejemplo = (''2025-01-01 10:00:00'', ''2025-01-01 10:00:00'',
                     ''2025-01-01 10:00:01'', ''2025-01-01 10:00:01'')"

text \<open>
  The state of the application before anything is loaded, and two rows of the table
  \<^verbatim>\<open>cuentas\<close>, the second of a kind the application never writes.
\<close>

definition app_vacia :: app where
  "app_vacia = \<lparr>cuentas = Map.empty, objetos = (\<lambda>r. init_cuenta Cuenta [] [] (Fin 0)), libre = 0\<rparr>"

definition filas_ejemplo :: "fila list" where
  "filas_ejemplo = [(''1000000001'', ''Ana Perez'', Fin 100, ''Ahorro''),
                    (''1000000002'', ''Luis Ramos'', Fin 0, ''Plazo'')]"

text \<open>A state of the application in which the first example account is registered.\<close>

definition app_ejemplo :: app where
  "app_ejemplo = \<lparr>cuentas = [''1000000001'' \<mapsto> 0], objetos = heap_ejemplo, libre = 2\<rparr>"

text \<open>A store whose accounts all hold 0.1, the float nearest to one tenth.\<close>

definition heap_decimos :: heap where
  "heap_decimos = (\<lambda>r. init_cuenta CuentaAhorro ''1000000003'' ''Eva Luna'' (literal (1 / 10)))"

text \<open>
  Two sequences of calls on the example store: one with ordinary amounts, one that deposits
  and withdraws the float infinity.
\<close>

definition ops_ejemplo :: "((string \<times> string \<times> string \<times> string) \<times> operacion) list" where
  "ops_ejemplo = [(fechas_ejemplo, Depositar 0 (Fin 50)), (fechas_ejemplo, Retirar 0 (Fin 200)),
                  (fechas_ejemplo, Transferir 0 1 (Fin 30)), (fechas_ejemplo, AplicarInteres 1)]"

definition ops_infinito :: "((string \<times> string \<times> string \<times> string) \<times> operacion) list" where
  "ops_infinito = [(fechas_ejemplo, Depositar 0 PosInf), (fechas_ejemplo, Retirar 0 PosInf)]"

text \<open>
  A store of two accounts that both hold 9007199254740992.00, that is \<open>2 ^ 53\<close>, the first
  float after which not every whole number is a float.
\<close>

definition heap_grande :: heap where
  "heap_grande =
     (\<lambda>r. if r = 0 then init_cuenta CuentaAhorro ''1000000004'' ''Rosa Diaz'' (Fin (2 ^ 53))
          else init_cuenta CuentaAhorro ''1000000005'' ''Juan Soto'' (Fin (2 ^ 53)))"

section \<open>Evaluation of the rounding on numerals\<close>

lemma bitlen_numeral_simps:
  "bitlen 1 = 1"
  "bitlen (numeral (Num.Bit0 n)) = bitlen (numeral n) + 1"
  "bitlen (numeral (Num.Bit1 n)) = bitlen (numeral n) + 1"
  by (subst compute_bitlen; simp)+

lemma floor_rat_numeral:
  "\<lfloor>numeral a / numeral b :: rat\<rfloor> = numeral a div numeral b"
  "\<lfloor>1 / numeral b :: rat\<rfloor> = 1 div numeral b"
  using floor_divide_of_int_eq [of "numeral a" "numeral b", where ?'a = rat]
    floor_divide_of_int_eq [of 1 "numeral b", where ?'a = rat]
  by simp_all

lemma ceiling_rat_numeral:
  "\<lceil>numeral a / numeral b :: rat\<rceil> = - ((- numeral a) div numeral b)"
  using ceiling_divide_eq_div [of "numeral a" "numeral b", where ?'a = rat]
  by simp

lemmas rnd_eval = literal_def rnd_def round_pos_def ulp_exp_def ilog2_def pow2_def
  round_half_even_def Let_def bitlen_numeral_simps floor_rat_numeral ceiling_rat_numeral

lemmas ejemplo_defs = heap_ejemplo_def cuenta_ana_def cuenta_luis_def init_cuenta_def
  fechas_ejemplo_def zero_pyfloat_def

section \<open>Comparisons\<close>

lemma pyfloat_pos_not_le_zero: "0 < (m :: pyfloat) \<Longrightarrow> \<not> m \<le> 0"
  by (cases m) (simp_all add: zero_pyfloat_def)

lemma pyfloat_le_not_gt: "(m :: pyfloat) \<le> s \<Longrightarrow> \<not> s < m"
  by (cases m; cases s) simp_all

section \<open>The methods on their successful paths\<close>

lemma retirar_ok:
  assumes "0 < monto" and "monto \<le> saldo (h self)"
  shows "retirar fecha self monto h =
    (None, h(self := (h self)\<lparr>saldo := saldo (h self) - monto,
        historial := historial (h self) @ [(fecha, ''Retiro'', ''-S/. '' @ fmt_2f monto)]\<rparr>))"
  using pyfloat_pos_not_le_zero [OF assms(1)] pyfloat_le_not_gt [OF assms(2)]
  by (simp add: retirar_def registrar_transaccion_def Let_def)

lemma depositar_ok:
  assumes "0 < monto"
  shows "depositar fecha self monto h =
    (None, h(self := (h self)\<lparr>saldo := saldo (h self) + monto,
        historial := historial (h self)
          @ [(fecha, ''Dep'' @ [CHR 0xF3] @ ''sito'', ''+S/. '' @ fmt_2f monto)]\<rparr>))"
  using pyfloat_pos_not_le_zero [OF assms(1)]
  by (simp add: depositar_def registrar_transaccion_def Let_def)

section \<open>Rejected calls\<close>

text \<open>
  Claim C2. For every amount that is positive and strictly greater than the balance,
  \<^verbatim>\<open>retirar\<close> raises the insufficient-funds error, a ValueError whose message holds
  the formatted balance and the formatted amount, and the store (so the balance and the
  history of the account) is as before the call.
\<close>

theorem retirar_saldo_insuficiente:
  assumes "0 < monto" and "monto > saldo (h self)"
  shows "retirar fecha self monto h =
           (Some (ValueError
              ([CHR 0xA1] @ ''Saldo insuficiente! Tu saldo actual es S/. ''
               @ fmt_2f (saldo (h self)) @ ''. No puedes retirar S/. '' @ fmt_2f monto @ ''.'')), h)"
proof -
  from assms(1) have "\<not> monto \<le> 0" by (rule pyfloat_pos_not_le_zero)
  with assms(2) show ?thesis
    by (simp add: retirar_def msg_saldo_insuficiente_def)
qed

theorem retirar_saldo_insuficiente_witness:
  "0 < Fin 200 \<and> Fin 200 > saldo (heap_ejemplo 0)
   \<and> retirar ''2025-01-01 10:00:00'' 0 (Fin 200) heap_ejemplo =
           (Some (ValueError
              ([CHR 0xA1] @ ''Saldo insuficiente! Tu saldo actual es S/. ''
               @ fmt_2f (saldo (heap_ejemplo 0)) @ ''. No puedes retirar S/. ''
               @ fmt_2f (Fin 200) @ ''.'')), heap_ejemplo)"
proof -
  have h1: "0 < Fin 200" by (simp add: zero_pyfloat_def)
  have h2: "Fin 200 > saldo (heap_ejemplo 0)" by (simp add: ejemplo_defs)
  from h1 h2 retirar_saldo_insuficiente [where h = heap_ejemplo and self = 0, OF h1 h2]
  show ?thesis by blast
qed

text \<open>
  Claim C6. For every amount \<open>\<le> 0\<close>, \<^verbatim>\<open>depositar\<close> and \<^verbatim>\<open>retirar\<close> both raise
  the invalid-amount error, a ValueError with the message of the method, and leave the
  store (so the balance and the history) unchanged.
\<close>

theorem monto_no_positivo:
  assumes "monto \<le> 0"
  shows "depositar fecha self monto h = (Some (ValueError msg_depositar), h)
       \<and> retirar fecha self monto h = (Some (ValueError msg_retirar), h)"
  using assms by (simp add: depositar_def retirar_def)

theorem monto_no_positivo_witness:
  "Fin (- 5) \<le> 0
   \<and> depositar ''2025-01-01 10:00:00'' 0 (Fin (- 5)) heap_ejemplo
       = (Some (ValueError msg_depositar), heap_ejemplo)
   \<and> retirar ''2025-01-01 10:00:00'' 0 (Fin (- 5)) heap_ejemplo
       = (Some (ValueError msg_retirar), heap_ejemplo)"
proof -
  have h1: "Fin (- 5) \<le> 0" by (simp add: zero_pyfloat_def)
  from h1 monto_no_positivo [OF h1] show ?thesis by blast
qed

section \<open>Transfers\<close>

text \<open>
  Claim C3, as amended. For two distinct accounts and an amount with \<open>0 < monto \<le> saldo\<close>
  of the source, \<^verbatim>\<open>transferir\<close> raises nothing; the source balance becomes
  \<open>saldo - monto\<close> and the destination balance \<open>saldo + monto\<close> in float arithmetic,
  which are the balance less the amount and the balance plus the amount exactly whenever
  that difference and that sum are themselves floats; the source gets the records of the
  withdrawal and of the transfer to the destination number, the destination the records of
  the deposit and of the transfer from the source number: four records in all, and nothing
  else in the store changes.
\<close>

theorem transferir_ok:
  assumes "self \<noteq> destino" and "0 < monto" and "monto \<le> saldo (h self)"
  shows "transferir (f1, f2, f3, f4) self destino monto h =
    (None,
     h(self := (h self)\<lparr>saldo := saldo (h self) - monto,
          historial := historial (h self) @
            [(f1, ''Retiro'', ''-S/. '' @ fmt_2f monto),
             (f3, ''Transferencia a '' @ numero (h destino), ''-S/. '' @ fmt_2f monto)]\<rparr>,
       destino := (h destino)\<lparr>saldo := saldo (h destino) + monto,
          historial := historial (h destino) @
            [(f2, ''Dep'' @ [CHR 0xF3] @ ''sito'', ''+S/. '' @ fmt_2f monto),
             (f4, ''Transferencia de '' @ numero (h self), ''+S/. '' @ fmt_2f monto)]\<rparr>))
    \<and> (\<forall>s d a. saldo (h self) = Fin s \<and> saldo (h destino) = Fin d \<and> monto = Fin a
           \<and> is_double (s - a) \<and> is_double (d + a) \<longrightarrow>
         saldo (h self) - monto = Fin (s - a) \<and> saldo (h destino) + monto = Fin (d + a))"
proof -
  have "transferir (f1, f2, f3, f4) self destino monto h =
    (None,
     h(self := (h self)\<lparr>saldo := saldo (h self) - monto,
          historial := historial (h self) @
            [(f1, ''Retiro'', ''-S/. '' @ fmt_2f monto),
             (f3, ''Transferencia a '' @ numero (h destino), ''-S/. '' @ fmt_2f monto)]\<rparr>,
       destino := (h destino)\<lparr>saldo := saldo (h destino) + monto,
          historial := historial (h destino) @
            [(f2, ''Dep'' @ [CHR 0xF3] @ ''sito'', ''+S/. '' @ fmt_2f monto),
             (f4, ''Transferencia de '' @ numero (h self), ''+S/. '' @ fmt_2f monto)]\<rparr>))"
    using assms
    by (auto simp add: transferir_def retirar_ok depositar_ok registrar_transaccion_def Let_def
        fun_eq_iff)
  moreover have "saldo (h self) - monto = Fin (s - a) \<and> saldo (h destino) + monto = Fin (d + a)"
    if "saldo (h self) = Fin s" "saldo (h destino) = Fin d" "monto = Fin a"
      "is_double (s - a)" "is_double (d + a)" for s d a
    using that by (simp add: is_double_def)
  ultimately show ?thesis by blast
qed

theorem transferir_ok_witness:
  "(0 :: ref) \<noteq> 1 \<and> 0 < Fin 30 \<and> Fin 30 \<le> saldo (heap_ejemplo 0)
   \<and> saldo (heap_ejemplo 0) = Fin 100 \<and> saldo (heap_ejemplo 1) = Fin 0
   \<and> is_double (100 - 30) \<and> is_double (0 + 30)
   \<and> fst (transferir fechas_ejemplo 0 1 (Fin 30) heap_ejemplo) = None
   \<and> saldo (snd (transferir fechas_ejemplo 0 1 (Fin 30) heap_ejemplo) 0) = Fin (100 - 30)
   \<and> saldo (snd (transferir fechas_ejemplo 0 1 (Fin 30) heap_ejemplo) 1) = Fin (0 + 30)
   \<and> length (historial (snd (transferir fechas_ejemplo 0 1 (Fin 30) heap_ejemplo) 0)) = 2
   \<and> length (historial (snd (transferir fechas_ejemplo 0 1 (Fin 30) heap_ejemplo) 1)) = 2"
proof -
  have h1: "(0 :: ref) \<noteq> 1" by simp
  have h2: "0 < Fin 30" by (simp add: zero_pyfloat_def)
  have h3: "Fin 30 \<le> saldo (heap_ejemplo 0)" by (simp add: ejemplo_defs)
  have s: "saldo (heap_ejemplo 0) = Fin 100" "saldo (heap_ejemplo 1) = Fin 0"
    "saldo (heap_ejemplo (Suc 0)) = Fin 0"
    "historial (heap_ejemplo 0) = []" "historial (heap_ejemplo (Suc 0)) = []"
    by (simp_all add: ejemplo_defs)
  have d: "is_double (100 - 30)" "is_double (0 + 30)"
    by (simp_all add: is_double_def rnd_eval)
  note t = transferir_ok [where h = heap_ejemplo and self = 0 and destino = 1,
        OF h1 h2 h3, of "''2025-01-01 10:00:00''" "''2025-01-01 10:00:00''"
        "''2025-01-01 10:00:01''" "''2025-01-01 10:00:01''"]
  from t [THEN conjunct2] s(1,2) d
  have e: "saldo (heap_ejemplo 0) - Fin 30 = Fin (100 - 30)"
    "saldo (heap_ejemplo 1) + Fin 30 = Fin (0 + 30)"
    by blast+
  have r: "transferir fechas_ejemplo 0 1 (Fin 30) heap_ejemplo =
      transferir (''2025-01-01 10:00:00'', ''2025-01-01 10:00:00'',
        ''2025-01-01 10:00:01'', ''2025-01-01 10:00:01'') 0 1 (Fin 30) heap_ejemplo"
    by (simp add: fechas_ejemplo_def)
  have c1: "fst (transferir fechas_ejemplo 0 1 (Fin 30) heap_ejemplo) = None"
    by (simp only: r t [THEN conjunct1] fst_conv)
  have c2: "saldo (snd (transferir fechas_ejemplo 0 1 (Fin 30) heap_ejemplo) 0) = Fin (100 - 30)"
    and c3: "saldo (snd (transferir fechas_ejemplo 0 1 (Fin 30) heap_ejemplo) 1) = Fin (0 + 30)"
    and c4: "length (historial (snd (transferir fechas_ejemplo 0 1 (Fin 30) heap_ejemplo) 0)) = 2"
    and c5: "length (historial (snd (transferir fechas_ejemplo 0 1 (Fin 30) heap_ejemplo) 1)) = 2"
    using e by (simp_all only: r t [THEN conjunct1] snd_conv) (simp_all add: s)
  from h1 h2 h3 s(1,2) d c1 c2 c3 c4 c5 show ?thesis by blast
qed

text \<open>
  The claim as stated fails: with 9007199254740992.00 on both accounts, a transfer of 1.00
  succeeds and takes 1.00 from the source, and the destination balance is what it was,
  since 9007199254740993 is not a float and the sum rounds back.
\<close>

theorem transferir_ok_counterexample:
  "(0 :: ref) \<noteq> 1 \<and> 0 < Fin 1 \<and> Fin 1 \<le> saldo (heap_grande 0)
   \<and> fst (transferir fechas_ejemplo 0 1 (Fin 1) heap_grande) = None
   \<and> saldo (heap_grande 0) = Fin 9007199254740992
   \<and> saldo (snd (transferir fechas_ejemplo 0 1 (Fin 1) heap_grande) 0) = Fin 9007199254740991
   \<and> saldo (heap_grande 1) = Fin 9007199254740992
   \<and> saldo (snd (transferir fechas_ejemplo 0 1 (Fin 1) heap_grande) 1) = Fin 9007199254740992
   \<and> saldo (snd (transferir fechas_ejemplo 0 1 (Fin 1) heap_grande) 1) = saldo (heap_grande 1)"
proof -
  have r: "rnd 9007199254740991 = Fin 9007199254740991"
    "rnd 9007199254740993 = Fin 9007199254740992"
    by (simp_all add: rnd_eval)
  show ?thesis
    by (simp add: transferir_def retirar_def depositar_def Let_def registrar_transaccion_def
        fechas_ejemplo_def heap_grande_def init_cuenta_def zero_pyfloat_def r)
qed


section \<open>Interest\<close>

text \<open>
  Claim C4. \<^verbatim>\<open>aplicar_interes\<close> never raises. On a savings account with balance \<open>B\<close>
  the new balance is \<open>B + B * (0.01 / 12)\<close>, on a current account \<open>B + B * (0.0005 / 12)\<close>,
  the operations being those of Python floats, and in each case the call appends exactly
  one record to the history of the account.
\<close>

theorem aplicar_interes_ok:
  "fst (aplicar_interes fecha self h) = None
   \<and> (clase (h self) = CuentaAhorro \<longrightarrow>
        snd (aplicar_interes fecha self h) =
          h(self := (h self)\<lparr>saldo := saldo (h self) + saldo (h self) * (literal (1 / 100) / Fin 12),
              historial := historial (h self) @
                [(fecha, ''Inter'' @ [CHR 0xE9] @ ''s (Ahorro)'',
                  ''+S/. '' @ fmt_2f (saldo (h self) * (literal (1 / 100) / Fin 12)))]\<rparr>))
   \<and> (clase (h self) = CuentaCorriente \<longrightarrow>
        snd (aplicar_interes fecha self h) =
          h(self := (h self)\<lparr>saldo := saldo (h self) + saldo (h self) * (literal (5 / 10000) / Fin 12),
              historial := historial (h self) @
                [(fecha, ''Inter'' @ [CHR 0xE9] @ ''s (Corriente)'',
                  ''+S/. '' @ fmt_2f (saldo (h self) * (literal (5 / 10000) / Fin 12)))]\<rparr>))"
  by (simp add: aplicar_interes_def Let_def registrar_transaccion_def split: clase_cuenta.splits)

theorem aplicar_interes_ok_witness:
  "clase (heap_ejemplo 0) = CuentaAhorro \<and> clase (heap_ejemplo 1) = CuentaCorriente
   \<and> fst (aplicar_interes ''2025-01-01 10:00:00'' 0 heap_ejemplo) = None
   \<and> saldo (snd (aplicar_interes ''2025-01-01 10:00:00'' 0 heap_ejemplo) 0)
       = Fin 100 + Fin 100 * (literal (1 / 100) / Fin 12)
   \<and> length (historial (snd (aplicar_interes ''2025-01-01 10:00:00'' 0 heap_ejemplo) 0)) = 1
   \<and> saldo (snd (aplicar_interes ''2025-01-01 10:00:00'' 1 heap_ejemplo) 1)
       = Fin 0 + Fin 0 * (literal (5 / 10000) / Fin 12)
   \<and> length (historial (snd (aplicar_interes ''2025-01-01 10:00:00'' 1 heap_ejemplo) 1)) = 1"
proof -
  have h1: "clase (heap_ejemplo 0) = CuentaAhorro"
    and h2: "clase (heap_ejemplo 1) = CuentaCorriente"
    by (simp_all add: heap_ejemplo_def cuenta_ana_def cuenta_luis_def init_cuenta_def)
  have s: "saldo (heap_ejemplo 0) = Fin 100" "saldo (heap_ejemplo 1) = Fin 0"
    "historial (heap_ejemplo 0) = []" "historial (heap_ejemplo 1) = []"
    "saldo (heap_ejemplo (Suc 0)) = Fin 0" "historial (heap_ejemplo (Suc 0)) = []"
    by (simp_all add: heap_ejemplo_def cuenta_ana_def cuenta_luis_def init_cuenta_def)
  show ?thesis
    using h1 h2 aplicar_interes_ok [of "''2025-01-01 10:00:00''" 0 heap_ejemplo]
      aplicar_interes_ok [of "''2025-01-01 10:00:00''" 1 heap_ejemplo]
    by (simp add: s)
qed

section \<open>What the operations leave alone\<close>

text \<open>
  Claim C8. The four ledger operations change only balances and histories: the number,
  the holder and the class of every object of the store are the same after the call,
  whether it raised or not.
\<close>

theorem operaciones_preservan_identidad:
  "numero (snd (depositar f self monto h) r) = numero (h r)
   \<and> titular (snd (depositar f self monto h) r) = titular (h r)
   \<and> clase (snd (depositar f self monto h) r) = clase (h r)
   \<and> numero (snd (retirar f self monto h) r) = numero (h r)
   \<and> titular (snd (retirar f self monto h) r) = titular (h r)
   \<and> clase (snd (retirar f self monto h) r) = clase (h r)
   \<and> numero (snd (transferir fs self destino monto h) r) = numero (h r)
   \<and> titular (snd (transferir fs self destino monto h) r) = titular (h r)
   \<and> clase (snd (transferir fs self destino monto h) r) = clase (h r)
   \<and> numero (snd (aplicar_interes f self h) r) = numero (h r)
   \<and> titular (snd (aplicar_interes f self h) r) = titular (h r)
   \<and> clase (snd (aplicar_interes f self h) r) = clase (h r)"
  by (simp add: depositar_def retirar_def transferir_def aplicar_interes_def Let_def
      registrar_transaccion_def split: prod.splits clase_cuenta.splits)

text \<open>
  Claim C9. A transfer that raises leaves the whole store as it was, source and
  destination included; and once \<^verbatim>\<open>retirar\<close> has accepted the amount, \<^verbatim>\<open>depositar\<close>
  of the same amount raises nothing, in whatever store it runs.
\<close>

theorem transferir_falla_sin_cambios:
  "(fst (transferir fechas self destino monto h) \<noteq> None \<longrightarrow>
      snd (transferir fechas self destino monto h) = h)
   \<and> (fst (retirar f1 self monto h) = None \<longrightarrow> fst (depositar f2 destino monto h') = None)"
  by (auto simp add: depositar_def retirar_def transferir_def Let_def split: prod.splits if_splits)

theorem transferir_falla_sin_cambios_witness:
  "fst (transferir fechas_ejemplo 0 1 (Fin 200) heap_ejemplo) \<noteq> None
   \<and> snd (transferir fechas_ejemplo 0 1 (Fin 200) heap_ejemplo) = heap_ejemplo
   \<and> fst (retirar ''2025-01-01 10:00:00'' 0 (Fin 30) heap_ejemplo) = None
   \<and> fst (depositar ''2025-01-01 10:00:00'' 1 (Fin 30) heap_ejemplo) = None"
proof -
  have h1: "fst (transferir fechas_ejemplo 0 1 (Fin 200) heap_ejemplo) \<noteq> None"
    by (simp add: transferir_def retirar_def fechas_ejemplo_def heap_ejemplo_def cuenta_ana_def
        init_cuenta_def zero_pyfloat_def)
  have h2: "fst (retirar ''2025-01-01 10:00:00'' 0 (Fin 30) heap_ejemplo) = None"
    by (simp add: retirar_def heap_ejemplo_def cuenta_ana_def init_cuenta_def zero_pyfloat_def
        Let_def)
  from h1 h2
    transferir_falla_sin_cambios [where fechas = fechas_ejemplo and self = 0 and destino = 1
      and monto = "Fin 200" and h = heap_ejemplo]
    transferir_falla_sin_cambios [where self = 0 and destino = 1 and monto = "Fin 30"
      and h = heap_ejemplo and h' = heap_ejemplo and ?f1.0 = "''2025-01-01 10:00:00''"
      and ?f2.0 = "''2025-01-01 10:00:00''"]
  show ?thesis by blast
qed


section \<open>Loading the accounts\<close>

text \<open>
  When the first row is of a kind that is neither \<^verbatim>\<open>Ahorro\<close> nor \<^verbatim>\<open>Corriente\<close>, the
  variable \<^verbatim>\<open>cuenta\<close> is unbound at the insertion: the load raises, and nothing has been
  loaded.
\<close>

lemma primera_fila_desconocida:
  assumes "\<not> tipo_conocido f"
  shows "load_accounts_from_db (Some (f # filas, hist)) a
           = (Some (UnboundLocalError ''cuenta''), a)"
proof -
  obtain num tit sal tipo where f: "f = (num, tit, sal, tipo)"
    by (cases f) auto
  with assms show ?thesis
    by (simp add: load_accounts_from_db_def tipo_conocido_def Let_def)
qed

text \<open>
  Claim C10. A stored row whose kind is neither \<^verbatim>\<open>Ahorro\<close> nor \<^verbatim>\<open>Corriente\<close> is to
  make the load raise the unbound-variable error, no account object being constructed for
  it. The code does not do so for the second of the two example rows: the variable still
  holds the object constructed for the first row, the load returns normally, and the
  number of the second row is registered for that same object, whose own number is the
  first one.
\<close>

theorem load_accounts_from_db_fila_desconocida:
  "\<not> tipo_conocido (filas_ejemplo ! 1)
   \<and> fst (load_accounts_from_db (Some (filas_ejemplo, \<lambda>n. [])) app_vacia) = None
   \<and> cuentas (snd (load_accounts_from_db (Some (filas_ejemplo, \<lambda>n. [])) app_vacia))
        ''1000000002'' = Some 0
   \<and> cuentas (snd (load_accounts_from_db (Some (filas_ejemplo, \<lambda>n. [])) app_vacia))
        ''1000000001'' = Some 0
   \<and> numero (objetos (snd (load_accounts_from_db (Some (filas_ejemplo, \<lambda>n. [])) app_vacia)) 0)
        = ''1000000001''
   \<and> libre (snd (load_accounts_from_db (Some (filas_ejemplo, \<lambda>n. [])) app_vacia)) = 1"
  by (simp add: load_accounts_from_db_def filas_ejemplo_def app_vacia_def tipo_conocido_def
      init_cuenta_def Let_def)

section \<open>Opening an account\<close>

lemma strip_sin_espacio_final: "strip s = [] \<or> \<not> es_espacio (last (strip s))"
proof (cases "dropWhile es_espacio (rev (dropWhile es_espacio s))")
  case Nil
  then show ?thesis by (simp add: strip_def)
next
  case (Cons c cs)
  then have "\<not> es_espacio (hd (dropWhile es_espacio (rev (dropWhile es_espacio s))))"
    using hd_dropWhile [of es_espacio "rev (dropWhile es_espacio s)"] by simp
  with Cons show ?thesis by (simp add: strip_def last_rev)
qed

lemma es_espacio_salto: "es_espacio (CHR 0x0A)"
  by (simp add: es_espacio_def)

lemma re_numero_diez_digitos:
  assumes "re_numero s" and "s = [] \<or> \<not> es_espacio (last s)"
  shows "length s = 10 \<and> list_all es_digito s"
proof -
  from assms(1) have len: "10 \<le> length s" and dig: "list_all es_digito (take 10 s)"
    and fin: "fin_de_cadena (drop 10 s)"
    by (simp_all add: re_numero_def)
  have "drop 10 s = []"
  proof (rule ccontr)
    assume ne: "drop 10 s \<noteq> []"
    with fin have d: "drop 10 s = [CHR 0x0A]" by (simp add: fin_de_cadena_def)
    have "last s = last (drop 10 s)" using ne by (simp add: last_drop)
    with d have "last s = CHR 0x0A" by simp
    moreover from ne have "s \<noteq> []" by auto
    ultimately show False using assms(2) es_espacio_salto by simp
  qed
  with len have "length s = 10" by simp
  with dig show ?thesis by simp
qed

lemma not_letra_espacio: "\<not> es_letra (CHR '' '')"
  by (simp add: es_letra_def)

lemma separar_no_vacio: "separar s \<noteq> []"
  by (induction s) (auto split: list.splits)

lemma separar_palabra:
  "list_all es_letra w \<Longrightarrow> separar (w @ s) = (w @ hd (separar s)) # tl (separar s)"
proof (induction w)
  case Nil
  then show ?case using separar_no_vacio [of s] by simp
next
  case (Cons c w)
  then have "c \<noteq> CHR '' ''" using not_letra_espacio by auto
  with Cons show ?case by (simp split: list.splits)
qed

lemma re_apellidos_separar:
  assumes "re_apellidos k s" and "s = [] \<or> last s \<noteq> CHR 0x0A"
  shows "\<exists>ws. separar s = [] # ws \<and> list_all (\<lambda>w. w \<noteq> [] \<and> list_all es_letra w) ws
              \<and> (1 \<le> k \<or> ws \<noteq> [])"
  using assms
proof (induction k s rule: re_apellidos.induct)
  case (1 k s)
  show ?case
  proof (cases s)
    case Nil
    with "1.prems" have "1 \<le> k"
      by (simp add: fin_de_cadena_def split: if_splits)
    with Nil show ?thesis by simp
  next
    case (Cons c t)
    with "1.prems"(2) have nofin: "\<not> fin_de_cadena s"
      by (auto simp add: fin_de_cadena_def)
    with "1.prems"(1) Cons have c: "c = CHR '' ''" and w: "takeWhile es_letra t \<noteq> []"
      and rest: "re_apellidos (Suc k) (dropWhile es_letra t)"
      by (simp_all split: if_splits)
    have t: "t = takeWhile es_letra t @ dropWhile es_letra t" by simp
    have "dropWhile es_letra t = [] \<or> last (dropWhile es_letra t) \<noteq> CHR 0x0A"
    proof (cases "dropWhile es_letra t = []")
      case True
      then show ?thesis by simp
    next
      case False
      then have "last (dropWhile es_letra t) = last t"
        by (metis last_appendR t)
      moreover from False have "t \<noteq> []" by auto
      ultimately show ?thesis using "1.prems"(2) Cons by simp
    qed
    moreover from nofin have "\<not> (1 \<le> k \<and> fin_de_cadena s)" by simp
    ultimately obtain ws where
      ws: "separar (dropWhile es_letra t) = [] # ws"
        "list_all (\<lambda>w. w \<noteq> [] \<and> list_all es_letra w) ws"
      using "1.IH" [OF _ Cons rest] by auto
    have "list_all es_letra (takeWhile es_letra t)"
      by (simp add: list_all_iff) (meson set_takeWhileD)
    from separar_palabra [OF this, of "dropWhile es_letra t"] ws(1)
    have "separar t = takeWhile es_letra t # ws" by simp
    with c Cons w ws(2) \<open>list_all es_letra (takeWhile es_letra t)\<close>
    show ?thesis by simp
  qed
qed

lemma re_titular_nombre_y_apellidos:
  assumes "re_titular s" and "s = [] \<or> \<not> es_espacio (last s)"
  shows "nombre_y_apellidos s"
proof -
  from assms(1) have w: "takeWhile es_letra s \<noteq> []"
    and rest: "re_apellidos 0 (dropWhile es_letra s)"
    by (simp_all add: re_titular_def)
  have s: "s = takeWhile es_letra s @ dropWhile es_letra s" by simp
  have "dropWhile es_letra s = [] \<or> last (dropWhile es_letra s) \<noteq> CHR 0x0A"
  proof (cases "dropWhile es_letra s = []")
    case True
    then show ?thesis by simp
  next
    case False
    then have "last (dropWhile es_letra s) = last s"
      by (metis last_appendR s)
    moreover from False have "s \<noteq> []" by auto
    ultimately show ?thesis using assms(2) es_espacio_salto by auto
  qed
  from re_apellidos_separar [OF rest this] obtain ws where
    ws: "separar (dropWhile es_letra s) = [] # ws"
      "list_all (\<lambda>w. w \<noteq> [] \<and> list_all es_letra w) ws" "ws \<noteq> []"
    by auto
  have l: "list_all es_letra (takeWhile es_letra s)"
    by (simp add: list_all_iff) (meson set_takeWhileD)
  from separar_palabra [OF l, of "dropWhile es_letra s"] ws(1)
  have "separar s = takeWhile es_letra s # ws" by simp
  with w l ws(2,3) show ?thesis
    by (cases ws) (simp_all add: nombre_y_apellidos_def)
qed

text \<open>
  Claim C7. The request of \<^verbatim>\<open>_crear_cuenta\<close> is rejected with a ValueError, shown under
  the title \<^verbatim>\<open>Error al Crear Cuenta\<close>, when the number (the stripped entry) is not
  exactly ten digits, when the owner name is not at least two space-separated words of
  letters, when the initial balance is negative, or when the number is already a key of
  \<^verbatim>\<open>cuentas\<close>; and then the whole state of the application, the dictionary included, is
  as before the call.
\<close>

theorem crear_cuenta_rechaza:
  assumes "\<not> (length (strip entry_numero) = 10 \<and> list_all es_digito (strip entry_numero))
         \<or> \<not> nombre_y_apellidos (strip entry_titular)
         \<or> (\<exists>x. float_of (strip entry_saldo) = Inr x \<and> x < 0)
         \<or> cuentas a (strip entry_numero) \<noteq> None"
  shows "\<exists>m. crear_cuenta_try float_of db_insert entry_numero entry_titular entry_saldo tipo a
               = (Some (ValueError m), a)
           \<and> crear_cuenta float_of db_insert entry_numero entry_titular entry_saldo tipo a
               = (ShowError ''Error al Crear Cuenta'' m, a)"
proof -
  have n: "re_numero (strip entry_numero) \<Longrightarrow>
      length (strip entry_numero) = 10 \<and> list_all es_digito (strip entry_numero)"
    using re_numero_diez_digitos [OF _ strip_sin_espacio_final] by blast
  have t: "re_titular (strip entry_titular) \<Longrightarrow> nombre_y_apellidos (strip entry_titular)"
    using re_titular_nombre_y_apellidos [OF _ strip_sin_espacio_final] by blast
  have "\<exists>m. crear_cuenta_try float_of db_insert entry_numero entry_titular entry_saldo tipo a
               = (Some (ValueError m), a)"
    using assms n t
    by (auto simp add: crear_cuenta_try_def Let_def split: sum.splits)
  then show ?thesis
    by (auto simp add: crear_cuenta_def)
qed

theorem crear_cuenta_rechaza_witness:
  "cuentas app_ejemplo (strip '' 1000000001 '') \<noteq> None
   \<and> fst (crear_cuenta (\<lambda>s. Inr (Fin 50)) (\<lambda>c. None) '' 1000000001 '' ''Luis Ramos'' ''50.00''
        ''Ahorro'' app_ejemplo)
      = ShowError ''Error al Crear Cuenta'' msg_cuenta_existe
   \<and> snd (crear_cuenta (\<lambda>s. Inr (Fin 50)) (\<lambda>c. None) '' 1000000001 '' ''Luis Ramos'' ''50.00''
        ''Ahorro'' app_ejemplo)
      = app_ejemplo
   \<and> \<not> nombre_y_apellidos (strip ''Luis'')
   \<and> snd (crear_cuenta (\<lambda>s. Inr (Fin 50)) (\<lambda>c. None) ''1000000002'' ''Luis'' ''50.00''
        ''Ahorro'' app_ejemplo)
      = app_ejemplo"
proof -
  have e: "strip '' 1000000001 '' = ''1000000001''" "strip ''Luis'' = ''Luis''"
    by (simp_all add: strip_def es_espacio_def)
  have h1: "cuentas app_ejemplo (strip '' 1000000001 '') \<noteq> None"
    by (simp add: e app_ejemplo_def)
  have h2: "\<not> nombre_y_apellidos (strip ''Luis'')"
    by (simp add: e nombre_y_apellidos_def)
  have m: "fst (crear_cuenta_try (\<lambda>s. Inr (Fin 50)) (\<lambda>c. None) '' 1000000001 '' ''Luis Ramos''
      ''50.00'' ''Ahorro'' app_ejemplo) = Some (ValueError msg_cuenta_existe)"
    by (simp add: crear_cuenta_try_def Let_def e strip_def es_espacio_def re_numero_def
        fin_de_cadena_def es_digito_def re_titular_def es_letra_def zero_pyfloat_def
        app_ejemplo_def)
  from crear_cuenta_rechaza [where float_of = "\<lambda>s. Inr (Fin 50)" and db_insert = "\<lambda>c. None"
      and entry_numero = "'' 1000000001 ''" and entry_titular = "''Luis Ramos''"
      and entry_saldo = "''50.00''" and tipo = "''Ahorro''" and a = app_ejemplo] h1
    crear_cuenta_rechaza [where float_of = "\<lambda>s. Inr (Fin 50)" and db_insert = "\<lambda>c. None"
      and entry_numero = "''1000000002''" and entry_titular = "''Luis''"
      and entry_saldo = "''50.00''" and tipo = "''Ahorro''" and a = app_ejemplo] h2 m
  show ?thesis using h1 h2 by auto
qed


section \<open>Properties of the rounding\<close>

lemma pow2_powi: "pow2 e = 2 powi e"
  by (simp add: pow2_def power_int_def field_simps)

lemma pow2_pos: "0 < pow2 e"
  by (simp add: pow2_powi)

lemma pow2_add: "pow2 (a + b) = pow2 a * pow2 b"
  by (simp add: pow2_powi power_int_add)

lemma pow2_mono: "a \<le> b \<Longrightarrow> pow2 a \<le> pow2 b"
  by (simp add: pow2_powi power_int_increasing)

lemma pow2_less_cancel: "pow2 a < pow2 b \<Longrightarrow> a < b"
  using pow2_mono [of b a] by (cases "a < b") auto

lemma pow2_of_int: "0 \<le> e \<Longrightarrow> pow2 e = of_int (2 ^ nat e)"
  by (simp add: pow2_def)

lemma rhe_bounds: "\<lfloor>q\<rfloor> \<le> round_half_even q \<and> round_half_even q \<le> \<lfloor>q\<rfloor> + 1"
  by (simp add: round_half_even_def Let_def)

lemma rhe_of_int: "round_half_even (of_int n) = n"
  by (simp add: round_half_even_def Let_def)

lemma rhe_mono:
  assumes "q \<le> q'"
  shows "round_half_even q \<le> round_half_even q'"
proof (cases "\<lfloor>q\<rfloor> < \<lfloor>q'\<rfloor>")
  case True
  with rhe_bounds [of q] rhe_bounds [of q'] show ?thesis by linarith
next
  case False
  with assms have "\<lfloor>q\<rfloor> = \<lfloor>q'\<rfloor>"
    using floor_mono [OF assms] by linarith
  with assms show ?thesis
    by (auto simp add: round_half_even_def Let_def)
qed

lemma ilog2_bounds:
  assumes "0 < x"
  shows "pow2 (ilog2 x) \<le> x \<and> x < pow2 (ilog2 x + 1)"
proof (cases "1 \<le> x")
  case True
  define n where "n = \<lfloor>x\<rfloor>"
  from True have n: "0 < n" by (simp add: n_def)
  from bitlen_bounds [OF n] have lo: "2 ^ nat (bitlen n - 1) \<le> n" and hi: "n < 2 ^ nat (bitlen n)"
    by simp_all
  from n have b1: "1 \<le> bitlen n" by (simp add: bitlen_alt_def)
  have il: "ilog2 x = bitlen n - 1" using True by (simp add: ilog2_def n_def)
  have "pow2 (ilog2 x) = of_int (2 ^ nat (bitlen n - 1))"
    using b1 by (simp add: il pow2_of_int)
  also have "\<dots> \<le> of_int n" using lo by (simp only: of_int_le_iff)
  also have "\<dots> \<le> x" by (simp add: n_def)
  finally have 1: "pow2 (ilog2 x) \<le> x" .
  from hi have "n + 1 \<le> 2 ^ nat (bitlen n)" by simp
  then have "(of_int (n + 1) :: rat) \<le> of_int (2 ^ nat (bitlen n))" by (simp only: of_int_le_iff)
  moreover have "x < of_int (n + 1)" using floor_correct [of x] by (simp add: n_def)
  moreover have "pow2 (ilog2 x + 1) = of_int (2 ^ nat (bitlen n))"
    using b1 by (simp add: il pow2_of_int)
  ultimately have "x < pow2 (ilog2 x + 1)" by simp
  with 1 show ?thesis by simp
next
  case False
  define m where "m = \<lceil>1 / x\<rceil> - 1"
  define c where "c = bitlen m"
  from False assms have "1 < 1 / x" by (simp add: field_simps)
  then have m: "0 < m" by (simp add: m_def less_ceiling_iff)
  from bitlen_bounds [OF m] have lo: "2 ^ nat (c - 1) \<le> m" and hi: "m < 2 ^ nat c"
    by (simp_all add: c_def)
  from m have c1: "1 \<le> c" by (simp add: c_def bitlen_alt_def)
  have il: "ilog2 x = - c" using False by (simp add: ilog2_def m_def c_def)
  have "1 / x \<le> of_int (m + 1)" using ceiling_correct [of "1 / x"] by (simp add: m_def)
  also have "(of_int (m + 1) :: rat) \<le> of_int (2 ^ nat c)" using hi by (simp only: of_int_le_iff)
  finally have "1 / x \<le> 2 ^ nat c" by simp
  with assms have "1 / 2 ^ nat c \<le> x" by (simp add: field_simps)
  moreover have "pow2 (ilog2 x) = 1 / 2 ^ nat c"
    using c1 by (simp add: il pow2_def)
  ultimately have 1: "pow2 (ilog2 x) \<le> x" by simp
  have "(of_int (2 ^ nat (c - 1)) :: rat) \<le> of_int m" using lo by (simp only: of_int_le_iff)
  also have "of_int m < 1 / x" using ceiling_correct [of "1 / x"] by (simp add: m_def)
  finally have "2 ^ nat (c - 1) < 1 / x" by simp
  with assms have "x < 1 / 2 ^ nat (c - 1)" by (simp add: field_simps)
  moreover have "pow2 (ilog2 x + 1) = 1 / 2 ^ nat (c - 1)"
    using c1 by (auto simp add: il pow2_def nat_diff_distrib)
  ultimately show ?thesis using 1 by simp
qed

lemma ilog2_mono:
  assumes "0 < x" and "x \<le> y"
  shows "ilog2 x \<le> ilog2 y"
proof -
  from assms have y: "0 < y" by simp
  from ilog2_bounds [OF assms(1)] ilog2_bounds [OF y] assms(2)
  have "pow2 (ilog2 x) < pow2 (ilog2 y + 1)" by linarith
  then have "ilog2 x < ilog2 y + 1" by (rule pow2_less_cancel)
  then show ?thesis by simp
qed

lemma ulp_exp_mono: "0 < x \<Longrightarrow> x \<le> y \<Longrightarrow> ulp_exp x \<le> ulp_exp y"
  using ilog2_mono [of x y] by (simp add: ulp_exp_def)

lemma round_pos_nonneg:
  assumes "0 < x"
  shows "0 \<le> round_pos x"
proof -
  have "0 \<le> x / pow2 (ulp_exp x)" using assms pow2_pos [of "ulp_exp x"] by simp
  then have "0 \<le> \<lfloor>x / pow2 (ulp_exp x)\<rfloor>" by simp
  with rhe_bounds [of "x / pow2 (ulp_exp x)"] have "0 \<le> round_half_even (x / pow2 (ulp_exp x))"
    by linarith
  then show ?thesis
    using pow2_pos [of "ulp_exp x"] by (simp add: round_pos_def)
qed

lemma round_pos_mono:
  assumes "0 < x" and "x \<le> y"
  shows "round_pos x \<le> round_pos y"
proof (cases "ulp_exp x = ulp_exp y")
  case True
  have "x / pow2 (ulp_exp y) \<le> y / pow2 (ulp_exp y)"
    using assms(2) pow2_pos [of "ulp_exp y"] by (simp add: divide_right_mono)
  then have "round_half_even (x / pow2 (ulp_exp y)) \<le> round_half_even (y / pow2 (ulp_exp y))"
    by (rule rhe_mono)
  then show ?thesis
    using pow2_pos [of "ulp_exp y"] by (simp add: round_pos_def True)
next
  case False
  with ulp_exp_mono [OF assms] have lt: "ulp_exp x < ulp_exp y" by simp
  from assms have y: "0 < y" by simp
  define L where "L = ilog2 y"
  define ex where "ex = ulp_exp x"
  from lt have ey: "ulp_exp y = L - 52"
    by (auto simp add: ulp_exp_def L_def max_def split: if_splits)
  have "ilog2 x - 52 \<le> ex" by (simp add: ex_def ulp_exp_def)
  with lt ey have ix: "ilog2 x + 1 \<le> L" by (simp add: ex_def)
  have Lex: "0 \<le> L - ex" using lt ey by (simp add: ex_def)
  \<comment> \<open>the rounding of \<open>y\<close> is at least \<open>pow2 L\<close>\<close>
  have "pow2 52 = pow2 L / pow2 (L - 52)"
    using pow2_add [of "L - 52" 52] pow2_pos [of "L - 52"] by (simp add: field_simps)
  also have "\<dots> \<le> y / pow2 (L - 52)"
    using ilog2_bounds [OF y] pow2_pos [of "L - 52"] by (simp add: L_def divide_right_mono)
  finally have "round_half_even (pow2 52) \<le> round_half_even (y / pow2 (L - 52))"
    by (rule rhe_mono)
  moreover have "round_half_even (pow2 52) = 2 ^ 52"
    using rhe_of_int [of "2 ^ 52"] by (simp add: pow2_def)
  ultimately have "(of_int (2 ^ 52) :: rat) \<le> of_int (round_half_even (y / pow2 (L - 52)))"
    by (simp only: of_int_le_iff)
  then have "pow2 52 * pow2 (L - 52) \<le> round_pos y"
    using pow2_pos [of "L - 52"] by (simp add: round_pos_def ey pow2_def)
  then have hi: "pow2 L \<le> round_pos y"
    using pow2_add [of 52 "L - 52"] by simp
  \<comment> \<open>the rounding of \<open>x\<close> is at most \<open>pow2 L\<close>\<close>
  have "x < pow2 L"
    using ilog2_bounds [OF assms(1)] pow2_mono [OF ix] by linarith
  then have "x / pow2 ex \<le> pow2 L / pow2 ex"
    using pow2_pos [of ex] by (simp add: divide_right_mono)
  also have "pow2 L / pow2 ex = pow2 (L - ex)"
    using pow2_add [of "L - ex" ex] pow2_pos [of ex] by (simp add: field_simps)
  finally have "round_half_even (x / pow2 ex) \<le> round_half_even (pow2 (L - ex))"
    by (rule rhe_mono)
  moreover have "round_half_even (pow2 (L - ex)) = 2 ^ nat (L - ex)"
    using rhe_of_int [of "2 ^ nat (L - ex)"] Lex by (simp add: pow2_of_int)
  ultimately have "(of_int (round_half_even (x / pow2 ex)) :: rat) \<le> of_int (2 ^ nat (L - ex))"
    by (simp only: of_int_le_iff)
  then have "round_pos x \<le> pow2 (L - ex) * pow2 ex"
    using pow2_pos [of ex] Lex by (simp add: round_pos_def ex_def [symmetric] pow2_of_int)
  then have "round_pos x \<le> pow2 L"
    using pow2_add [of "L - ex" ex] by simp
  with hi show ?thesis by simp
qed

lemma rnd_nonneg: "0 \<le> q \<Longrightarrow> Fin 0 \<le> rnd q"
  using round_pos_nonneg [of q] by (auto simp add: rnd_def Let_def)

lemma rnd_mono_pos:
  assumes "0 < x" and "x \<le> y"
  shows "rnd x \<le> rnd y"
proof -
  from assms have y: "0 < y" by simp
  from round_pos_mono [OF assms] assms(1) y show ?thesis
    by (auto simp add: rnd_def Let_def)
qed


text \<open>Rounding twice is rounding once: the results of the float operations are doubles.\<close>

lemma ilog2_unique:
  assumes "pow2 k \<le> y" and "y < pow2 (k + 1)"
  shows "ilog2 y = k"
proof -
  have y: "0 < y" using assms(1) pow2_pos [of k] by linarith
  from ilog2_bounds [OF y] assms have "pow2 k < pow2 (ilog2 y + 1)" "pow2 (ilog2 y) < pow2 (k + 1)"
    by linarith+
  then have "k < ilog2 y + 1" "ilog2 y < k + 1" by (auto dest: pow2_less_cancel)
  then show ?thesis by simp
qed

lemma pow2_div: "pow2 a / pow2 b = pow2 (a - b)"
  using pow2_add [of "a - b" b] pow2_pos [of b] by (simp add: field_simps)

lemma pow2_mult: "a + b = c \<Longrightarrow> pow2 a * pow2 b = pow2 c"
  using pow2_add [of a b] by simp

lemma pow2_strict_mono: "a < b \<Longrightarrow> pow2 a < pow2 b"
  by (simp add: pow2_powi power_int_strict_increasing)

lemma pow2_le_cancel: "pow2 a \<le> pow2 b \<Longrightarrow> a \<le> b"
  using pow2_strict_mono [of b a] by (cases "a \<le> b") auto

lemma round_pos_idem:
  assumes "0 < x"
  shows "round_pos (round_pos x) = round_pos x \<or> round_pos x = 0"
proof -
  define e where "e = ulp_exp x"
  define n where "n = round_half_even (x / pow2 e)"
  define y where "y = round_pos x"
  define L where "L = ilog2 x"
  have y: "y = of_int n * pow2 e" by (simp add: y_def n_def e_def round_pos_def)
  have n0: "0 \<le> n" using round_pos_nonneg [OF assms] pow2_pos [of e]
    by (simp add: y_def [symmetric] y zero_le_mult_iff)
  show ?thesis
  proof (cases "n = 0")
    case True
    then show ?thesis by (simp add: y_def [symmetric] y)
  next
    case False
    with n0 have npos: "1 \<le> n" by simp
    have ypos: "0 < y" using npos pow2_pos [of e] by (simp add: y)
    have "ulp_exp y = e \<or> (ulp_exp y = e + 1 \<and> n = 2 ^ 53)"
    proof (cases "L - 52 \<ge> - 1074")
      case True
      then have e: "e = L - 52" by (simp add: e_def ulp_exp_def L_def)
      have "pow2 L / pow2 e = pow2 52" "pow2 (L + 1) / pow2 e = pow2 53"
        by (simp_all add: e pow2_div)
      moreover have "pow2 L / pow2 e \<le> x / pow2 e" "x / pow2 e \<le> pow2 (L + 1) / pow2 e"
        using ilog2_bounds [OF assms] pow2_pos [of e] by (simp_all add: L_def divide_right_mono)
      ultimately have "pow2 52 \<le> x / pow2 e" "x / pow2 e \<le> pow2 53" by simp_all
      then have "round_half_even (pow2 52) \<le> n" "n \<le> round_half_even (pow2 53)"
        unfolding n_def by (auto intro: rhe_mono)
      moreover have "round_half_even (pow2 52) = 2 ^ 52" "round_half_even (pow2 53) = 2 ^ 53"
        using rhe_of_int [of "2 ^ 52"] rhe_of_int [of "2 ^ 53"] by (simp_all add: pow2_def)
      ultimately have nb: "2 ^ 52 \<le> n" "n \<le> 2 ^ 53" by simp_all
      show ?thesis
      proof (cases "n = 2 ^ 53")
        case True
        then have "y = pow2 53 * pow2 e" by (simp add: y pow2_def)
        moreover have "pow2 53 * pow2 e = pow2 (L + 1)" by (rule pow2_mult) (simp add: e)
        ultimately have "y = pow2 (L + 1)" by (simp only:)
        then have "ilog2 y = L + 1"
          using pow2_strict_mono [of "L + 1" "L + 1 + 1"] by (intro ilog2_unique) simp_all
        with \<open>L - 52 \<ge> - 1074\<close> True show ?thesis by (simp add: ulp_exp_def e)
      next
        case False
        with nb have "n < 2 ^ 53" by simp
        then have "(of_int n :: rat) < of_int (2 ^ 53)" by (simp only: of_int_less_iff)
        then have "y < pow2 53 * pow2 e" using pow2_pos [of e] by (simp add: y pow2_def)
        moreover have "pow2 53 * pow2 e = pow2 (L + 1)" by (rule pow2_mult) (simp add: e)
        ultimately have hi: "y < pow2 (L + 1)" by (simp only:)
        from nb have "(of_int (2 ^ 52) :: rat) \<le> of_int n" by (simp only: of_int_le_iff)
        then have "pow2 52 * pow2 e \<le> y" using pow2_pos [of e] by (simp add: y pow2_def)
        moreover have "pow2 52 * pow2 e = pow2 L" by (rule pow2_mult) (simp add: e)
        ultimately have lo: "pow2 L \<le> y" by (simp only:)
        from ilog2_unique [OF lo hi] \<open>L - 52 \<ge> - 1074\<close> show ?thesis
          by (simp add: ulp_exp_def e)
      qed
    next
      case False
      then have e: "e = - 1074" by (simp add: e_def ulp_exp_def L_def)
      from False have "L + 1 \<le> - 1022" by simp
      then have "pow2 (L + 1) \<le> pow2 (- 1022)" by (rule pow2_mono)
      with ilog2_bounds [OF assms] have "x \<le> pow2 (- 1022)" by (simp add: L_def)
      then have "x / pow2 e \<le> pow2 (- 1022) / pow2 e"
        using pow2_pos [of e] by (simp add: divide_right_mono)
      also have "pow2 (- 1022) / pow2 e = pow2 52"
        by (simp add: e pow2_div)
      finally have "n \<le> round_half_even (pow2 52)" unfolding n_def by (rule rhe_mono)
      moreover have "round_half_even (pow2 52) = 2 ^ 52"
        using rhe_of_int [of "2 ^ 52"] by (simp add: pow2_def)
      ultimately have "(of_int n :: rat) \<le> of_int (2 ^ 52)" by (simp only: of_int_le_iff)
      then have "y \<le> pow2 52 * pow2 e" using pow2_pos [of e] by (simp add: y pow2_def)
      moreover have "pow2 52 * pow2 e = pow2 (- 1022)" by (rule pow2_mult) (simp add: e)
      ultimately have "y \<le> pow2 (- 1022)" by (simp only:)
      with ilog2_bounds [OF ypos] have "pow2 (ilog2 y) \<le> pow2 (- 1022)" by linarith
      then have "ilog2 y \<le> - 1022" by (rule pow2_le_cancel)
      then show ?thesis by (simp add: ulp_exp_def e)
    qed
    then show ?thesis
    proof
      assume "ulp_exp y = e"
      then have "round_pos y = y"
        using pow2_pos [of e] by (simp add: round_pos_def y rhe_of_int)
      then show ?thesis by (simp add: y_def)
    next
      assume a: "ulp_exp y = e + 1 \<and> n = 2 ^ 53"
      have "pow2 53 * pow2 e = pow2 (e + 53)" "pow2 52 * pow2 (e + 1) = pow2 (e + 53)"
        by (rule pow2_mult, simp)+
      then have "pow2 53 * pow2 e = pow2 52 * pow2 (e + 1)" by simp
      with a have "y = of_int (2 ^ 52) * pow2 (e + 1)"
        by (simp add: y pow2_of_int)
      then have "y / pow2 (e + 1) = of_int (2 ^ 52)" using pow2_pos [of "e + 1"] by simp
      then have "round_pos y = of_int (2 ^ 52) * pow2 (e + 1)"
        using a rhe_of_int [of "2 ^ 52"] by (simp add: round_pos_def del: of_int_power of_int_numeral)
      with \<open>y = of_int (2 ^ 52) * pow2 (e + 1)\<close> show ?thesis by (simp add: y_def)
    qed
  qed
qed

lemma rnd_is_double:
  assumes "rnd q = Fin y"
  shows "is_double y"
proof -
  consider "q = 0" | "0 < q" | "q < 0" by linarith
  then show ?thesis
  proof cases
    case 1
    with assms show ?thesis by (simp add: rnd_def is_double_def)
  next
    case 2
    with assms have y: "y = round_pos q" and lt: "\<not> 2 ^ 1024 \<le> round_pos q"
      by (auto simp add: rnd_def Let_def split: if_splits)
    from round_pos_idem [OF 2] round_pos_nonneg [OF 2] lt show ?thesis
      by (auto simp add: is_double_def rnd_def Let_def y)
  next
    case 3
    then have p: "0 < - q" by simp
    from 3 assms have y: "y = - round_pos (- q)" and lt: "\<not> 2 ^ 1024 \<le> round_pos (- q)"
      by (auto simp add: rnd_def Let_def split: if_splits)
    from round_pos_idem [OF p] round_pos_nonneg [OF p] lt show ?thesis
      by (auto simp add: is_double_def rnd_def Let_def y)
  qed
qed

lemma pyfloat_ops_double:
  "Fin a + Fin b = Fin c \<Longrightarrow> is_double c"
  "Fin a - Fin b = Fin c \<Longrightarrow> is_double c"
  "Fin a * Fin b = Fin c \<Longrightarrow> is_double c"
  "literal q = Fin c \<Longrightarrow> is_double c"
  by (simp_all add: rnd_is_double literal_def)

section \<open>Arithmetic of non-negative floats\<close>

lemma pyfloat_add_nonneg:
  assumes "0 \<le> (s :: pyfloat)" and "0 \<le> m"
  shows "0 \<le> s + m"
  using assms rnd_nonneg
  by (cases s; cases m) (simp_all add: zero_pyfloat_def)

lemma pyfloat_not_le_zero_finite:
  assumes "\<not> (m :: pyfloat) \<le> 0" and "is_finite m"
  shows "0 \<le> m"
  using assms by (cases m) (simp_all add: zero_pyfloat_def)

lemma pyfloat_sub_nonneg:
  assumes "0 \<le> (s :: pyfloat)" and "is_finite m" and "\<not> m > s"
  shows "0 \<le> s - m"
  using assms rnd_nonneg
  by (cases s; cases m) (simp_all add: zero_pyfloat_def)

lemma tasa_mensual_ahorro:
  "literal (1 / 100) / Fin 12 = Fin (7686143364045647 / 9223372036854775808)"
  by (simp add: rnd_eval)

lemma tasa_mensual_corriente:
  "literal (5 / 10000) / Fin 12 = Fin (6148914691236517 / 147573952589676412928)"
  by (simp add: rnd_eval)

lemma pyfloat_mul_nonneg:
  assumes "0 \<le> (s :: pyfloat)" and "0 < t"
  shows "0 \<le> s * Fin t"
  using assms rnd_nonneg [of "q * t" for q]
  by (cases s) (simp_all add: zero_pyfloat_def)

section \<open>The balance invariant\<close>

lemma sin_saldo_negativo_upd:
  assumes "sin_saldo_negativo h" and "0 \<le> saldo c"
  shows "sin_saldo_negativo (h(r := c))"
  using assms by (simp add: sin_saldo_negativo_def)

lemma sin_saldo_negativo_registrar:
  "sin_saldo_negativo h \<Longrightarrow> sin_saldo_negativo (registrar_transaccion f r t m h)"
  by (simp add: sin_saldo_negativo_def registrar_transaccion_def)

lemma depositar_invariante:
  assumes "sin_saldo_negativo h" and "is_finite monto"
  shows "sin_saldo_negativo (snd (depositar f self monto h))"
proof (cases "monto \<le> 0")
  case True
  with assms(1) show ?thesis by (simp add: depositar_def)
next
  case False
  from assms(1) have "0 \<le> saldo (h self)" by (simp add: sin_saldo_negativo_def)
  with pyfloat_not_le_zero_finite [OF False assms(2)]
  have "0 \<le> saldo (h self) + monto" by (simp add: pyfloat_add_nonneg)
  with assms(1) False show ?thesis
    by (simp add: depositar_def Let_def sin_saldo_negativo_registrar sin_saldo_negativo_upd)
qed

lemma retirar_invariante:
  assumes "sin_saldo_negativo h" and "is_finite monto"
  shows "sin_saldo_negativo (snd (retirar f self monto h))"
proof (cases "monto \<le> 0 \<or> monto > saldo (h self)")
  case True
  with assms(1) show ?thesis by (auto simp add: retirar_def)
next
  case False
  from assms(1) have "0 \<le> saldo (h self)" by (simp add: sin_saldo_negativo_def)
  with False assms(2) have "0 \<le> saldo (h self) - monto" by (simp add: pyfloat_sub_nonneg)
  with assms(1) False show ?thesis
    by (simp add: retirar_def Let_def sin_saldo_negativo_registrar sin_saldo_negativo_upd)
qed

lemma transferir_invariante:
  assumes "sin_saldo_negativo h" and "is_finite monto"
  shows "sin_saldo_negativo (snd (transferir fs self destino monto h))"
proof -
  obtain f1 f2 f3 f4 where fs: "fs = (f1, f2, f3, f4)" by (cases fs) auto
  have 1: "sin_saldo_negativo (snd (retirar f1 self monto h))"
    using assms by (rule retirar_invariante)
  then have 2: "sin_saldo_negativo (snd (depositar f2 destino monto (snd (retirar f1 self monto h))))"
    using assms(2) by (rule depositar_invariante)
  from 1 2 show ?thesis
    by (auto simp add: transferir_def fs Let_def sin_saldo_negativo_registrar
        split: prod.splits option.splits)
qed

lemma aplicar_interes_invariante:
  assumes "sin_saldo_negativo h"
  shows "sin_saldo_negativo (snd (aplicar_interes f self h))"
proof -
  from assms have s: "0 \<le> saldo (h self)" by (simp add: sin_saldo_negativo_def)
  have a: "0 \<le> saldo (h self) + saldo (h self) * (literal (1 / 100) / Fin 12)"
    unfolding tasa_mensual_ahorro using s by (simp add: pyfloat_add_nonneg pyfloat_mul_nonneg)
  have c: "0 \<le> saldo (h self) + saldo (h self) * (literal (5 / 10000) / Fin 12)"
    unfolding tasa_mensual_corriente using s by (simp add: pyfloat_add_nonneg pyfloat_mul_nonneg)
  show ?thesis
    using assms a c
    by (simp add: aplicar_interes_def Let_def sin_saldo_negativo_registrar sin_saldo_negativo_upd
        split: clase_cuenta.splits)
qed

lemma ejecutar_invariante:
  assumes "sin_saldo_negativo h" and "monto_finito op"
  shows "sin_saldo_negativo (snd (ejecutar fs op h))"
  using assms
  by (cases op)
    (simp_all add: monto_finito_def depositar_invariante retirar_invariante
      transferir_invariante aplicar_interes_invariante)

lemma ejecutar_todas_invariante:
  assumes "sin_saldo_negativo h" and "montos_finitos ops"
  shows "sin_saldo_negativo (ejecutar_todas ops h)"
  using assms
proof (induction ops arbitrary: h)
  case Nil
  then show ?case by simp
next
  case (Cons p ops)
  obtain fs op where p: "p = (fs, op)" by (cases p) auto
  from Cons.prems have "sin_saldo_negativo (snd (ejecutar fs op h))"
    by (simp add: p montos_finitos_def ejecutar_invariante)
  with Cons.IH [of "snd (ejecutar fs op h)"] Cons.prems show ?case
    by (simp add: p montos_finitos_def)
qed

lemma montos_finitos_take: "montos_finitos ops \<Longrightarrow> montos_finitos (take n ops)"
  by (auto simp add: montos_finitos_def list_all_iff dest: in_set_takeD)

text \<open>
  Claim C1, as amended. Starting from a store without negative balances, after every
  prefix of a sequence of \<^verbatim>\<open>depositar\<close>, \<^verbatim>\<open>retirar\<close>, \<^verbatim>\<open>transferir\<close> and
  \<^verbatim>\<open>aplicar_interes\<close> calls whose amounts are finite numbers, every balance is \<open>\<ge> 0\<close>.
\<close>

theorem saldo_nunca_negativo:
  assumes "sin_saldo_negativo h" and "montos_finitos ops"
  shows "sin_saldo_negativo (ejecutar_todas (take n ops) h)"
  using assms by (simp add: ejecutar_todas_invariante montos_finitos_take)

lemma sin_saldo_negativo_ejemplo: "sin_saldo_negativo heap_ejemplo"
  by (simp add: sin_saldo_negativo_def ejemplo_defs)

theorem saldo_nunca_negativo_witness:
  "sin_saldo_negativo heap_ejemplo \<and> montos_finitos ops_ejemplo
   \<and> sin_saldo_negativo (ejecutar_todas (take 4 ops_ejemplo) heap_ejemplo)
   \<and> saldo (ejecutar_todas (take 3 ops_ejemplo) heap_ejemplo 0) = Fin 120
   \<and> saldo (ejecutar_todas (take 3 ops_ejemplo) heap_ejemplo 1) = Fin 30"
proof -
  have h2: "montos_finitos ops_ejemplo"
    by (simp add: montos_finitos_def monto_finito_def ops_ejemplo_def)
  have a: "rnd 150 = Fin 150" "rnd 120 = Fin 120" "rnd 30 = Fin 30"
    by (simp_all add: rnd_eval)
  have "saldo (ejecutar_todas (take 3 ops_ejemplo) heap_ejemplo 0) = Fin 120
      \<and> saldo (ejecutar_todas (take 3 ops_ejemplo) heap_ejemplo 1) = Fin 30"
    by (simp add: ops_ejemplo_def ejemplo_defs depositar_def retirar_def transferir_def Let_def
        registrar_transaccion_def a)
  with sin_saldo_negativo_ejemplo h2
    saldo_nunca_negativo [OF sin_saldo_negativo_ejemplo h2, of 4]
  show ?thesis by blast
qed

text \<open>
  The claim as stated fails: an amount can be the float infinity (\<^verbatim>\<open>float\<close> of a long
  enough string of digits). Depositing it and withdrawing it again leaves the balance at
  NaN, which is not \<open>\<ge> 0\<close>.
\<close>

theorem saldo_nunca_negativo_counterexample:
  "sin_saldo_negativo heap_ejemplo
   \<and> fst (depositar ''2025-01-01 10:00:00'' 0 PosInf heap_ejemplo) = None
   \<and> fst (retirar ''2025-01-01 10:00:00'' 0 PosInf
            (snd (depositar ''2025-01-01 10:00:00'' 0 PosInf heap_ejemplo))) = None
   \<and> saldo (ejecutar_todas ops_infinito heap_ejemplo 0) = NaN
   \<and> \<not> 0 \<le> saldo (ejecutar_todas ops_infinito heap_ejemplo 0)
   \<and> \<not> sin_saldo_negativo (ejecutar_todas ops_infinito heap_ejemplo)"
proof -
  have 1: "saldo (ejecutar_todas ops_infinito heap_ejemplo 0) = NaN"
    by (simp add: ops_infinito_def ejemplo_defs depositar_def retirar_def Let_def
        registrar_transaccion_def)
  then have 2: "\<not> 0 \<le> saldo (ejecutar_todas ops_infinito heap_ejemplo 0)"
    by (simp add: zero_pyfloat_def)
  then have 3: "\<not> sin_saldo_negativo (ejecutar_todas ops_infinito heap_ejemplo)"
    unfolding sin_saldo_negativo_def by blast
  have 4: "fst (depositar ''2025-01-01 10:00:00'' 0 PosInf heap_ejemplo) = None"
    "fst (retirar ''2025-01-01 10:00:00'' 0 PosInf
            (snd (depositar ''2025-01-01 10:00:00'' 0 PosInf heap_ejemplo))) = None"
    by (simp_all add: ejemplo_defs depositar_def retirar_def Let_def registrar_transaccion_def)
  from sin_saldo_negativo_ejemplo 1 2 3 4 show ?thesis by blast
qed

section \<open>Deposit followed by withdrawal\<close>

lemma pyfloat_le_add:
  assumes "0 \<le> (s :: pyfloat)" and "0 < a" and "is_double a"
  shows "Fin a \<le> s + Fin a"
proof (cases s)
  case (Fin b)
  with assms(1) have "0 \<le> b" by (simp add: zero_pyfloat_def)
  then have "rnd a \<le> rnd (b + a)" using assms(2) by (intro rnd_mono_pos) simp_all
  with assms(3) Fin show ?thesis by (simp add: is_double_def)
qed (use assms in \<open>simp_all add: zero_pyfloat_def\<close>)

text \<open>
  Claim C5, as amended. On an account with a non-negative balance, \<^verbatim>\<open>depositar\<close> of a
  positive finite amount followed by \<^verbatim>\<open>retirar\<close> of the same amount both succeed and
  append exactly two records, the deposit and the withdrawal. The balance becomes
  \<open>(saldo + monto) - monto\<close> in float arithmetic, which is the balance before the deposit
  whenever the exact sum of balance and amount is itself a float.
\<close>

theorem depositar_y_retirar:
  assumes "0 \<le> saldo (h self)" and "0 < Fin a" and "is_double a"
  shows "depositar f1 self (Fin a) h =
           (None, h(self := (h self)\<lparr>saldo := saldo (h self) + Fin a,
              historial := historial (h self)
                @ [(f1, ''Dep'' @ [CHR 0xF3] @ ''sito'', ''+S/. '' @ fmt_2f (Fin a))]\<rparr>))
       \<and> retirar f2 self (Fin a) (snd (depositar f1 self (Fin a) h)) =
           (None, h(self := (h self)\<lparr>saldo := (saldo (h self) + Fin a) - Fin a,
              historial := historial (h self)
                @ [(f1, ''Dep'' @ [CHR 0xF3] @ ''sito'', ''+S/. '' @ fmt_2f (Fin a)),
                   (f2, ''Retiro'', ''-S/. '' @ fmt_2f (Fin a))]\<rparr>))
       \<and> (\<forall>b. saldo (h self) = Fin b \<and> is_double b \<and> is_double (b + a) \<longrightarrow>
              (saldo (h self) + Fin a) - Fin a = saldo (h self))"
proof -
  let ?h1 = "h(self := (h self)\<lparr>saldo := saldo (h self) + Fin a,
              historial := historial (h self)
                @ [(f1, ''Dep'' @ [CHR 0xF3] @ ''sito'', ''+S/. '' @ fmt_2f (Fin a))]\<rparr>)"
  have d: "depositar f1 self (Fin a) h = (None, ?h1)"
    using assms(2) by (rule depositar_ok)
  from assms(2) have a: "0 < a" by (simp add: zero_pyfloat_def)
  have "Fin a \<le> saldo (?h1 self)"
    using pyfloat_le_add [OF assms(1) a assms(3)] by simp
  from retirar_ok [where h = ?h1 and self = self and monto = "Fin a" and fecha = f2,
      OF assms(2) this]
  have r: "retirar f2 self (Fin a) ?h1 =
           (None, h(self := (h self)\<lparr>saldo := (saldo (h self) + Fin a) - Fin a,
              historial := historial (h self)
                @ [(f1, ''Dep'' @ [CHR 0xF3] @ ''sito'', ''+S/. '' @ fmt_2f (Fin a)),
                   (f2, ''Retiro'', ''-S/. '' @ fmt_2f (Fin a))]\<rparr>))"
    by simp
  have "(saldo (h self) + Fin a) - Fin a = saldo (h self)"
    if "saldo (h self) = Fin b" "is_double b" "is_double (b + a)" for b
    using that by (simp add: is_double_def)
  with d r show ?thesis by auto
qed

theorem depositar_y_retirar_witness:
  "0 \<le> saldo (heap_ejemplo 0) \<and> 0 < Fin 50 \<and> is_double 50 \<and> is_double 100
   \<and> is_double (100 + 50)
   \<and> fst (depositar ''2025-01-01 10:00:00'' 0 (Fin 50) heap_ejemplo) = None
   \<and> fst (retirar ''2025-01-01 10:00:01'' 0 (Fin 50)
        (snd (depositar ''2025-01-01 10:00:00'' 0 (Fin 50) heap_ejemplo))) = None
   \<and> saldo (snd (retirar ''2025-01-01 10:00:01'' 0 (Fin 50)
        (snd (depositar ''2025-01-01 10:00:00'' 0 (Fin 50) heap_ejemplo))) 0) = Fin 100
   \<and> length (historial (snd (retirar ''2025-01-01 10:00:01'' 0 (Fin 50)
        (snd (depositar ''2025-01-01 10:00:00'' 0 (Fin 50) heap_ejemplo))) 0)) = 2"
proof -
  have h1: "0 \<le> saldo (heap_ejemplo 0)" by (simp add: ejemplo_defs)
  have h2: "0 < Fin 50" by (simp add: zero_pyfloat_def)
  have h3: "is_double 50" and h4: "is_double 100" and h5: "is_double (100 + 50)"
    by (simp_all add: is_double_def rnd_eval)
  have s: "saldo (heap_ejemplo 0) = Fin 100" "historial (heap_ejemplo 0) = []"
    by (simp_all add: ejemplo_defs)
  note t = depositar_y_retirar [where h = heap_ejemplo and self = 0, OF h1 h2 h3,
      of "''2025-01-01 10:00:00''" "''2025-01-01 10:00:01''"]
  have c1: "fst (depositar ''2025-01-01 10:00:00'' 0 (Fin 50) heap_ejemplo) = None"
    by (simp only: t [THEN conjunct1] fst_conv)
  have c2: "fst (retirar ''2025-01-01 10:00:01'' 0 (Fin 50)
        (snd (depositar ''2025-01-01 10:00:00'' 0 (Fin 50) heap_ejemplo))) = None"
    by (simp only: t [THEN conjunct2, THEN conjunct1] fst_conv)
  from t [THEN conjunct2, THEN conjunct2] s h4 h5
  have c3: "(saldo (heap_ejemplo 0) + Fin 50) - Fin 50 = Fin 100"
    by simp
  have c4: "saldo (snd (retirar ''2025-01-01 10:00:01'' 0 (Fin 50)
        (snd (depositar ''2025-01-01 10:00:00'' 0 (Fin 50) heap_ejemplo))) 0) = Fin 100"
    by (simp only: t [THEN conjunct2, THEN conjunct1] snd_conv) (simp add: c3)
  have c5: "length (historial (snd (retirar ''2025-01-01 10:00:01'' 0 (Fin 50)
        (snd (depositar ''2025-01-01 10:00:00'' 0 (Fin 50) heap_ejemplo))) 0)) = 2"
    by (simp only: t [THEN conjunct2, THEN conjunct1] snd_conv) (simp add: s)
  from h1 h2 h3 h4 h5 c1 c2 c4 c5 show ?thesis by blast
qed

text \<open>
  The claim as stated fails: on a balance of 0.1, depositing 0.2 and withdrawing 0.2 both
  succeed and leave 0.10000000000000003.
\<close>

theorem depositar_y_retirar_counterexample:
  "0 < literal (2 / 10)
   \<and> fst (depositar ''2025-01-01 10:00:00'' 0 (literal (2 / 10)) heap_decimos) = None
   \<and> fst (retirar ''2025-01-01 10:00:01'' 0 (literal (2 / 10))
        (snd (depositar ''2025-01-01 10:00:00'' 0 (literal (2 / 10)) heap_decimos))) = None
   \<and> saldo (heap_decimos 0) = Fin (3602879701896397 / 36028797018963968)
   \<and> saldo (snd (retirar ''2025-01-01 10:00:01'' 0 (literal (2 / 10))
        (snd (depositar ''2025-01-01 10:00:00'' 0 (literal (2 / 10)) heap_decimos))) 0)
       = Fin (1801439850948199 / 18014398509481984)
   \<and> saldo (snd (retirar ''2025-01-01 10:00:01'' 0 (literal (2 / 10))
        (snd (depositar ''2025-01-01 10:00:00'' 0 (literal (2 / 10)) heap_decimos))) 0)
       \<noteq> saldo (heap_decimos 0)"
proof -
  have l1: "literal (1 / 10) = Fin (3602879701896397 / 36028797018963968)"
    and l2: "literal (2 / 10) = Fin (3602879701896397 / 18014398509481984)"
    by (simp_all add: rnd_eval)
  have a: "rnd (10808639105689191 / 36028797018963968) = Fin (1351079888211149 / 4503599627370496)"
    and b: "rnd (1801439850948199 / 18014398509481984) = Fin (1801439850948199 / 18014398509481984)"
    by (simp_all add: rnd_eval)
  have s: "saldo (heap_decimos 0) = Fin (3602879701896397 / 36028797018963968)"
    by (simp add: heap_decimos_def init_cuenta_def l1)
  show ?thesis
    unfolding l2
    by (simp add: s a b depositar_def retirar_def Let_def registrar_transaccion_def
        zero_pyfloat_def)
qed


section \<open>The model on the values of the specification's scenario\<close>

lemma fmt_2f_ejemplos:
  "fmt_2f (Fin 50) = ''50.00''"
  "fmt_2f (Fin (1 / 8)) = ''0.12''"
  "fmt_2f (Fin (- 3 / 2)) = ''-1.50''"
  "fmt_2f PosInf = ''inf''"
  by (simp_all add: fmt_2f_def round_half_even_def Let_def digit_char_def floor_rat_numeral)

lemma pyfloat_ejemplos:
  "literal (1 / 10) = Fin (3602879701896397 / 36028797018963968)"
  "literal (1 / 10) + literal (2 / 10) = Fin (1351079888211149 / 4503599627370496)"
  "Fin (2 ^ 1023) + Fin (2 ^ 1023) = PosInf"
  "PosInf - PosInf = NaN"
  by (simp_all add: rnd_eval)

lemma escenario_deposito:
  "depositar ''2025-01-01 10:00:00'' 0 (Fin 50) heap_ejemplo =
     (None, heap_ejemplo(0 := cuenta_ana\<lparr>saldo := Fin 150,
        historial := [(''2025-01-01 10:00:00'', ''Dep'' @ [CHR 0xF3] @ ''sito'', ''+S/. 50.00'')]\<rparr>))"
proof -
  have "rnd 150 = Fin 150" by (simp add: rnd_eval)
  then show ?thesis
    by (simp add: depositar_def Let_def registrar_transaccion_def heap_ejemplo_def
        cuenta_ana_def init_cuenta_def zero_pyfloat_def fmt_2f_ejemplos)
qed


text \<open>
  The interest formula is one of floats: on a balance of 100 the new balance is the float
  100.08333333333333, not the rational \<open>100 + 100 * (1 / 100 / 12)\<close>.
\<close>

lemma interes_redondeado:
  "Fin 100 + Fin 100 * (literal (1 / 100) / Fin 12) = Fin (7042738479781205 / 70368744177664)"
  "Fin 100 + Fin 100 * (literal (1 / 100) / Fin 12) \<noteq> Fin (100 + 100 * (1 / 100 / 12))"
  by (simp_all add: rnd_eval)


end
